theory Spec2Isabelle
  imports Complex_Main
begin

section \<open>JavaScript numbers\<close>

text \<open>
  The rig device and the dashboard compute with JavaScript numbers, that is with IEEE 754
  double precision. A number is a real that is a double, or one of the three non-finite
  values \<open>Infinity\<close>, \<open>-Infinity\<close> and \<open>NaN\<close>. Every arithmetic operation yields the
  exact result rounded to the nearest double, ties to the even mantissa, with overflow to
  an infinity and gradual underflow (\<open>dbl\<close>). An \<open>undefined\<close> operand of an arithmetic
  operation or of a comparison behaves as \<open>NaN\<close>, and both are falsy, so one value stands
  for both. Zero carries no sign, and \<open>x / 0\<close> is taken at the positive zero: the divisors
  of the source that can be zero are the dashboard's summed cost, a sum started at \<open>0\<close>,
  and the exchange rate.
\<close>

datatype jsnum = Num real | PInf | NInf | NaN

text \<open>The sign of an overflow, and of a product or quotient with an infinite operand.\<close>

definition js_signed_inf :: "bool \<Rightarrow> jsnum" where
  "js_signed_inf positive = (if positive then PInf else NInf)"

text \<open>
  The binary exponent of a real: the number of halvings that bring it below 2, or of
  doublings that bring it to 1. Doubles have exponents from -1022 (below that the spacing
  no longer shrinks) to 1023.
\<close>

primrec halvings :: "nat \<Rightarrow> real \<Rightarrow> nat" where
  "halvings 0 y = 0"
| "halvings (Suc n) y = (if 2 \<le> y then Suc (halvings n (y / 2)) else 0)"

primrec doublings :: "nat \<Rightarrow> real \<Rightarrow> nat" where
  "doublings 0 y = 0"
| "doublings (Suc n) y = (if y < 1 then Suc (doublings n (2 * y)) else 0)"

definition expo :: "real \<Rightarrow> int" where
  "expo x = (if 1 \<le> \<bar>x\<bar> then int (halvings 1024 \<bar>x\<bar>) else - int (doublings 1022 \<bar>x\<bar>))"

definition pow2 :: "int \<Rightarrow> real" where
  "pow2 e = 2 powi e"

text \<open>The nearest integer, a tie going to the even one.\<close>

definition round_even :: "real \<Rightarrow> int" where
  "round_even y =
     (if y - of_int \<lfloor>y\<rfloor> < 1 / 2 then \<lfloor>y\<rfloor>
      else if 1 / 2 < y - of_int \<lfloor>y\<rfloor> then \<lfloor>y\<rfloor> + 1
      else if even \<lfloor>y\<rfloor> then \<lfloor>y\<rfloor> else \<lfloor>y\<rfloor> + 1)"

text \<open>
  The double nearest to a real: a mantissa of 53 bits at the exponent of the real. This is
  also the value of a numeric literal of the source.
\<close>

definition dbl :: "real \<Rightarrow> jsnum" where
  "dbl x =
     (let u = pow2 (expo x - 52);
          r = of_int (round_even (x / u)) * u
      in if 2 ^ 1024 \<le> \<bar>r\<bar> then js_signed_inf (0 < x) else Num r)"

fun js_neg :: "jsnum \<Rightarrow> jsnum" where
  "js_neg (Num x) = Num (- x)"
| "js_neg PInf = NInf"
| "js_neg NInf = PInf"
| "js_neg NaN = NaN"

fun js_add :: "jsnum \<Rightarrow> jsnum \<Rightarrow> jsnum" where
  "js_add NaN b = NaN"
| "js_add a NaN = NaN"
| "js_add (Num x) (Num y) = dbl (x + y)"
| "js_add PInf NInf = NaN"
| "js_add NInf PInf = NaN"
| "js_add PInf b = PInf"
| "js_add NInf b = NInf"
| "js_add a PInf = PInf"
| "js_add a NInf = NInf"

definition js_sub :: "jsnum \<Rightarrow> jsnum \<Rightarrow> jsnum" where
  "js_sub a b = js_add a (js_neg b)"

fun js_mul :: "jsnum \<Rightarrow> jsnum \<Rightarrow> jsnum" where
  "js_mul NaN b = NaN"
| "js_mul a NaN = NaN"
| "js_mul (Num x) (Num y) = dbl (x * y)"
| "js_mul (Num x) PInf = (if x = 0 then NaN else js_signed_inf (0 < x))"
| "js_mul (Num x) NInf = (if x = 0 then NaN else js_signed_inf (x < 0))"
| "js_mul PInf (Num y) = (if y = 0 then NaN else js_signed_inf (0 < y))"
| "js_mul NInf (Num y) = (if y = 0 then NaN else js_signed_inf (y < 0))"
| "js_mul PInf PInf = PInf"
| "js_mul NInf NInf = PInf"
| "js_mul PInf NInf = NInf"
| "js_mul NInf PInf = NInf"

fun js_div :: "jsnum \<Rightarrow> jsnum \<Rightarrow> jsnum" where
  "js_div NaN b = NaN"
| "js_div a NaN = NaN"
| "js_div (Num x) (Num y) =
     (if y = 0 then (if x = 0 then NaN else js_signed_inf (0 < x)) else dbl (x / y))"
| "js_div (Num x) PInf = Num 0"
| "js_div (Num x) NInf = Num 0"
| "js_div PInf (Num y) = js_signed_inf (0 \<le> y)"
| "js_div NInf (Num y) = js_signed_inf (y < 0)"
| "js_div a b = NaN"

text \<open>\<open>a < b\<close>; every comparison with \<open>NaN\<close> is false.\<close>

fun js_lt :: "jsnum \<Rightarrow> jsnum \<Rightarrow> bool" where
  "js_lt (Num x) (Num y) = (x < y)"
| "js_lt (Num x) PInf = True"
| "js_lt NInf (Num y) = True"
| "js_lt NInf PInf = True"
| "js_lt a b = False"

definition js_gt :: "jsnum \<Rightarrow> jsnum \<Rightarrow> bool" where
  "js_gt a b = js_lt b a"

text \<open>\<open>a === b\<close> on numbers: \<open>NaN\<close> is not equal to itself.\<close>

definition js_eq :: "jsnum \<Rightarrow> jsnum \<Rightarrow> bool" where
  "js_eq a b = (a \<noteq> NaN \<and> a = b)"

text \<open>Truthiness of a number: \<open>0\<close> and \<open>NaN\<close> (and \<open>undefined\<close>) are falsy.\<close>

fun truthy :: "jsnum \<Rightarrow> bool" where
  "truthy (Num x) = (x \<noteq> 0)"
| "truthy NaN = False"
| "truthy a = True"

text \<open>\<open>v || d\<close> for a value read from a store or a setting; \<open>None\<close> is a missing key.\<close>

definition js_or :: "jsnum option \<Rightarrow> jsnum \<Rightarrow> jsnum" where
  "js_or v d = (case v of None \<Rightarrow> d | Some x \<Rightarrow> if truthy x then x else d)"

text \<open>\<open>Math.max(a, b)\<close>.\<close>

definition js_max :: "jsnum \<Rightarrow> jsnum \<Rightarrow> jsnum" where
  "js_max a b = (if a = NaN \<or> b = NaN then NaN else if js_lt a b then b else a)"

text \<open>\<open>Math.round(a)\<close>: the nearest integer, halves rounded up.\<close>

fun js_round :: "jsnum \<Rightarrow> jsnum" where
  "js_round (Num x) = Num (of_int \<lfloor>x + 1 / 2\<rfloor>)"
| "js_round a = a"

definition is_finite :: "jsnum \<Rightarrow> bool" where
  "is_finite a = (case a of Num x \<Rightarrow> True | _ \<Rightarrow> False)"

section \<open>Rig telemetry: hash rate units\<close>

text \<open>
  The \<open>switch (speed.displaySuffix)\<close> of \<open>syncRigDetails\<close>, applied to the parsed speed \<open>r\<close>.
  The default branch (\<open>MH\<close> or an unknown unit) leaves the reading as it is.
\<close>

definition normalize_mh :: "jsnum \<Rightarrow> string \<Rightarrow> jsnum" where
  "normalize_mh r displaySuffix =
     (if displaySuffix = ''H'' then js_div r (Num 1000000)
      else if displaySuffix = ''kH'' then js_div r (Num 1000)
      else if displaySuffix = ''GH'' then js_div r (dbl 0.001)
      else if displaySuffix = ''TH'' then js_div r (dbl 0.000001)
      else if displaySuffix = ''PH'' then js_div r (dbl 0.000000001)
      else if displaySuffix = ''EH'' then js_div r (dbl 0.000000000001)
      else r)"


section \<open>Rig telemetry: aggregation over the devices\<close>

text \<open>
  The payload of \<open>getRigDetails\<close>. Numbers that the source reads with
  \<open>Number.parseFloat\<close> are given as the parsed value. The algorithm label, the console
  output, the status-change trigger and the rounded capability values are written by the
  source but never read back by it; they are left out of the model. A v4 device is given
  with whatever status the payload reports for it (\<open>v4_status\<close>); the source reads the
  status of a legacy device only.
\<close>

record speed_entry =
  speed :: jsnum
  displaySuffix :: string

record legacy_device =
  dev_status :: string
  dev_temperature :: jsnum
  dev_powerUsage :: jsnum
  dev_load :: jsnum
  dev_speeds :: "speed_entry list"

record v4_speed_entry =
  algorithm :: nat
  v4_speed :: jsnum

record v4_device =
  v4_status :: string
  mdv_algorithmsSpeed :: "v4_speed_entry list option"
  odv :: "(string \<times> jsnum) list"

record rig_details =
  rig_type :: "string option"
  devices :: "legacy_device list option"
  hasV4Rigs :: bool
  v4_devices :: "v4_device list option"
  profitability :: jsnum

text \<open>The local accumulators of \<open>syncRigDetails\<close>.\<close>

record totals =
  powerUsage :: jsnum
  hashrate :: jsnum
  mining :: nat
  temperature :: jsnum
  load :: jsnum

definition totals0 :: totals where
  "totals0 = \<lparr>powerUsage = Num 0, hashrate = Num 0, mining = 0, temperature = Num 0, load = Num 0\<rparr>"

definition speed_step :: "speed_entry \<Rightarrow> jsnum \<Rightarrow> jsnum" where
  "speed_step sp h = js_add h (normalize_mh (speed sp) (displaySuffix sp))"

text \<open>One iteration of the loop over \<open>details.devices\<close>, with its two \<open>continue\<close>s.\<close>

definition legacy_step :: "legacy_device \<Rightarrow> totals \<Rightarrow> totals" where
  "legacy_step d t =
     (if dev_status d = ''DISABLED'' \<or> dev_status d = ''OFFLINE'' then t
      else
        let t1 = t\<lparr>temperature := js_max (temperature t) (dev_temperature d),
                   powerUsage := js_add (powerUsage t) (dev_powerUsage d),
                   load := js_add (load t) (dev_load d)\<rparr>
        in if dev_status d \<noteq> ''MINING'' then t1
           else t1\<lparr>mining := mining t1 + 1,
                   hashrate := fold speed_step (dev_speeds d) (hashrate t1)\<rparr>)"

text \<open>One iteration of the loop over \<open>device.mdv.algorithmsSpeed\<close> of a v4 device.\<close>

definition v4_speed_step :: "v4_speed_entry \<Rightarrow> totals \<Rightarrow> totals" where
  "v4_speed_step a t =
     (let r = js_div (v4_speed a) (Num 1000000)
      in t\<lparr>mining := (if js_gt r (Num 0) then mining t + 1 else mining t),
           hashrate := js_add (hashrate t) r\<rparr>)"

text \<open>One iteration of the loop over \<open>device.odv\<close> of a v4 device.\<close>

definition odv_step :: "string \<times> jsnum \<Rightarrow> totals \<Rightarrow> totals" where
  "odv_step kv t =
     (let t1 = (if fst kv = ''Power usage''
                then t\<lparr>powerUsage := js_add (powerUsage t) (snd kv)\<rparr> else t);
          t2 = (if fst kv = ''Temperature''
                then t1\<lparr>temperature := js_max (temperature t1) (snd kv)\<rparr> else t1)
      in if fst kv = ''Load'' then t2\<lparr>load := js_add (load t2) (snd kv)\<rparr> else t2)"

definition v4_step :: "v4_device \<Rightarrow> totals \<Rightarrow> totals" where
  "v4_step d t =
     fold odv_step (odv d)
       (case mdv_algorithmsSpeed d of None \<Rightarrow> t | Some sps \<Rightarrow> fold v4_speed_step sps t)"

definition aggregate :: "rig_details \<Rightarrow> totals" where
  "aggregate det =
     (let t1 = (case devices det of None \<Rightarrow> totals0 | Some ds \<Rightarrow> fold legacy_step ds totals0)
      in if hasV4Rigs det
         then (case v4_devices det of None \<Rightarrow> t1 | Some ds \<Rightarrow> fold v4_step ds t1)
         else t1)"

section \<open>The rig device: state and one polling tick\<close>

type_synonym store = "string \<rightharpoonup> jsnum"

text \<open>
  The instance fields of \<open>NiceHashRigDevice\<close> that \<open>syncRigDetails\<close> reads and writes, and
  the device store (\<open>getStoreValue\<close>, \<open>setStoreValue\<close>). Timestamps are integers
  (milliseconds); \<open>0\<close> is the source's value for "not set".
\<close>

record rig_state =
  lastSync :: int
  lastMined :: int
  benchmarkStart :: int
  rollingProfit :: jsnum
  store :: store

definition smartMagicNumber :: int where
  "smartMagicNumber = 7"

definition initial_state :: rig_state where
  "initial_state = \<lparr>lastSync = 0, lastMined = 0, benchmarkStart = 0, rollingProfit = Num 0,
     store = Map.empty\<rparr>"

text \<open>
  What one tick reads from outside the device: the fetched payload (\<open>None\<close> when the fetch
  gave nothing), the settings, the exchange rate (\<open>bitcoinRate['15m']\<close>, \<open>None\<close> when
  \<open>getBitcoinRate\<close> returns \<open>null\<close>), the autopilot switch, and the clock, one reading for
  each place where the source reads it.
\<close>

record tick_env =
  details :: "rig_details option"
  power_tariff :: jsnum
  bitcoinRate :: "jsnum option"
  smart_mode :: bool
  min_profitability_setting :: "jsnum option"
  now_idle :: int
  now_mined :: int
  now_meter :: int
  now_bench :: int
  now_check :: int
  now_end :: int

datatype command = Start | Stop

text \<open>\<open>!details || !details.type || details.type === 'UNMANAGED'\<close>, for a payload that is there.\<close>

definition not_managed :: "rig_details \<Rightarrow> bool" where
  "not_managed det =
     (case rig_type det of None \<Rightarrow> True | Some ty \<Rightarrow> ty = [] \<or> ty = ''UNMANAGED'')"

text \<open>\<open>details.devices || details.hasV4Rigs\<close>: an array, also an empty one, is truthy.\<close>

definition has_device_lists :: "rig_details \<Rightarrow> bool" where
  "has_device_lists det = (case devices det of Some ds \<Rightarrow> True | None \<Rightarrow> hasV4Rigs det)"

definition tariff_limit_of :: "store \<Rightarrow> jsnum" where
  "tariff_limit_of st = js_or (st ''tariff_limit'') (Num (- 1))"

text \<open>The condition of the autopilot start on an idle tick.\<close>

definition start_condition :: "bool \<Rightarrow> jsnum \<Rightarrow> jsnum \<Rightarrow> int \<Rightarrow> int \<Rightarrow> bool" where
  "start_condition smart tariff_limit tariff last_mined now =
     (smart \<and> (js_eq tariff_limit (Num (- 1)) \<or> js_gt tariff_limit tariff \<or> last_mined = 0
        \<or> (last_mined \<noteq> 0 \<and> now - last_mined > 1000 * 60 * 60 * smartMagicNumber)))"

text \<open>The branch \<open>mining === 0\<close>; it returns before \<open>lastSync\<close> is set at the end.\<close>

definition tick_idle :: "tick_env \<Rightarrow> jsnum \<Rightarrow> rig_state \<Rightarrow> rig_state \<times> command list" where
  "tick_idle e tariff_limit s =
     (s\<lparr>store := (store s)(''mining'' \<mapsto> Num 0, ''measure_profit'' \<mapsto> Num 0,
           ''measure_profit_scarab'' \<mapsto> Num 0, ''measure_profit_percent'' \<mapsto> Num 0,
           ''measure_cost'' \<mapsto> Num 0, ''measure_cost_scarab'' \<mapsto> Num 0),
         lastSync := 0, benchmarkStart := 0, rollingProfit := Num 0\<rparr>,
      if start_condition (smart_mode e) tariff_limit (power_tariff e) (lastMined s) (now_idle e)
      then [Start] else [])"

text \<open>
  Revenue, cost and net profit of the tick. \<open>tariff_currency\<close> defaults to \<open>'USD'\<close> and is
  always truthy, so only the tariff and the rate guard the computation.
\<close>

record profit_result =
  pr_store :: store
  costPerDayMBTC :: jsnum
  mBTCRate :: jsnum
  profitPct :: jsnum

definition profit_calc ::
  "jsnum \<Rightarrow> jsnum option \<Rightarrow> nat \<Rightarrow> jsnum \<Rightarrow> jsnum \<Rightarrow> store \<Rightarrow> profit_result" where
  "profit_calc tariff rate n_mining usage prof st =
     (if truthy tariff then
        (case rate of
           None \<Rightarrow> \<lparr>pr_store = st, costPerDayMBTC = Num 0, mBTCRate = Num 0, profitPct = Num 0\<rparr>
         | Some price \<Rightarrow>
            let st1 = (if n_mining > 0
                       then st(''measure_profit_scarab'' \<mapsto> js_mul prof price) else st);
                costPerDay = js_mul (js_div (js_mul tariff usage) (Num 1000)) (Num 24);
                st2 = st1(''measure_cost_scarab'' \<mapsto> costPerDay);
                mrate = js_div price (Num 1000);
                cost = js_div costPerDay mrate;
                st3 = st2(''measure_cost'' \<mapsto> cost)
            in if n_mining > 0 \<and> js_gt cost (Num 0) then
                 let revenue = js_mul prof (Num 1000);
                     profit = js_sub revenue cost;
                     pct = js_round (js_mul (js_div profit cost) (Num 100))
                 in \<lparr>pr_store = st3(''measure_profit_percent'' \<mapsto> pct),
                     costPerDayMBTC = cost, mBTCRate = mrate, profitPct = pct\<rparr>
               else \<lparr>pr_store = st3, costPerDayMBTC = cost, mBTCRate = mrate,
                      profitPct = Num 0\<rparr>)
      else \<lparr>pr_store = st, costPerDayMBTC = Num 0, mBTCRate = Num 0, profitPct = Num 0\<rparr>)"

text \<open>The cumulative meters, updated when a previous \<open>lastSync\<close> exists.\<close>

definition meters ::
  "int \<Rightarrow> int \<Rightarrow> jsnum \<Rightarrow> jsnum \<Rightarrow> jsnum \<Rightarrow> jsnum \<Rightarrow> store \<Rightarrow> store" where
  "meters now last_sync usage prof cost mrate st =
     (let meter_power = js_or (st ''meter_power'') (Num 0);
          power_add = js_mul (js_div usage (Num 1000))
                        (js_div (Num (of_int (now - last_sync))) (Num (1000 * 60 * 60)));
          st1 = st(''meter_power'' \<mapsto> js_add meter_power power_add);
          meter_profit = js_or (st1 ''meter_profit'') (Num 0);
          mbtc_profit_add = js_mul (js_mul prof (Num 1000))
                              (js_div (Num (of_int (now - last_sync))) (Num 86400000));
          st2 = st1(''meter_profit'' \<mapsto> js_add meter_profit mbtc_profit_add);
          st3 = (if truthy mrate
                 then st2(''meter_profit_scarab'' \<mapsto>
                        js_mul (js_add meter_profit mbtc_profit_add) mrate)
                 else st2);
          meter_cost = js_or (st3 ''meter_cost'') (Num 0);
          mbtc_cost_add = js_mul cost (js_div (Num (of_int (now - last_sync))) (Num 86400000));
          new_meter_cost = js_add meter_cost mbtc_cost_add;
          st4 = st3(''meter_cost'' \<mapsto> new_meter_cost)
      in if truthy mrate then st4(''meter_cost_scarab'' \<mapsto> js_mul new_meter_cost mrate)
         else st4)"

text \<open>The update of the rolling average on a tick after the first of a benchmark.\<close>

definition ema :: "jsnum \<Rightarrow> jsnum \<Rightarrow> jsnum" where
  "ema rolling pct =
     js_add (js_mul rolling (js_div (Num (of_int (smartMagicNumber - 1)))
                                    (Num (of_int smartMagicNumber))))
            (js_mul pct (js_div (Num 1) (Num (of_int smartMagicNumber))))"

text \<open>The block \<open>if (hashrate)\<close>: rolling average, then the stop decision.\<close>

definition stop_condition :: "jsnum \<Rightarrow> jsnum \<Rightarrow> jsnum \<Rightarrow> bool" where
  "stop_condition rolling pct threshold = (js_lt rolling threshold \<and> js_lt pct threshold)"

definition assess ::
  "tick_env \<Rightarrow> jsnum \<Rightarrow> jsnum \<Rightarrow> jsnum \<Rightarrow> rig_state \<Rightarrow> rig_state \<times> command list" where
  "assess e tariff_limit threshold pct s =
     (let s1 = (if benchmarkStart s = 0
                then s\<lparr>benchmarkStart := now_bench e, rollingProfit := pct\<rparr>
                else s\<lparr>rollingProfit := ema (rollingProfit s) pct\<rparr>)
      in if benchmarkStart s1 > 0
            \<and> now_check e - benchmarkStart s1 > smartMagicNumber * 60000
         then
           (if stop_condition (rollingProfit s1) pct threshold
            then (s1\<lparr>store := (store s1)(''tariff_limit'' \<mapsto> power_tariff e)\<rparr>,
                  if smart_mode e then [Stop] else [])
            else if js_gt (power_tariff e) tariff_limit
                 then (s1\<lparr>store := (store s1)(''tariff_limit'' \<mapsto> power_tariff e)\<rparr>, [])
                 else (s1, []))
         else (s1, []))"

text \<open>\<open>details.profitability\<close> after the override of a tick that waits for a job.\<close>

definition profitability_now :: "rig_details \<Rightarrow> totals \<Rightarrow> jsnum" where
  "profitability_now det t = (if \<not> truthy (hashrate t) then Num 0 else profitability det)"

text \<open>The part of the tick after the idle branch, up to the final write of \<open>lastSync\<close>.\<close>

definition tick_mining ::
  "tick_env \<Rightarrow> rig_details \<Rightarrow> totals \<Rightarrow> jsnum \<Rightarrow> jsnum \<Rightarrow> rig_state
     \<Rightarrow> rig_state \<times> command list" where
  "tick_mining e det t tariff_limit threshold s =
     (let prof = profitability_now det t;
          st1 = (store s)(''measure_profit'' \<mapsto> js_mul prof (Num 1000), ''mining'' \<mapsto> Num 1);
          pr = profit_calc (power_tariff e) (bitcoinRate e) (mining t) (powerUsage t) prof st1;
          s1 = s\<lparr>lastMined := now_mined e, store := pr_store pr\<rparr>
      in if lastSync s1 > 0 then
           let s2 = s1\<lparr>store := meters (now_meter e) (lastSync s1) (powerUsage t) prof
                                  (costPerDayMBTC pr) (mBTCRate pr) (store s1)\<rparr>
           in if truthy (hashrate t) then assess e tariff_limit threshold (profitPct pr) s2
              else (s2, [])
         else (s1, []))"

definition syncRigDetails :: "tick_env \<Rightarrow> rig_state \<Rightarrow> rig_state \<times> command list" where
  "syncRigDetails e s =
     (let threshold = js_or (min_profitability_setting e) (Num 0)
      in case details e of
           None \<Rightarrow> (s, [])
         | Some det \<Rightarrow>
             if not_managed det then (s, [])
             else
               let tariff_limit = tariff_limit_of (store s)
               in if has_device_lists det then
                    let t = aggregate det;
                        s1 = s\<lparr>store := (store s)(''hashrate'' \<mapsto> hashrate t,
                                                    ''measure_power'' \<mapsto> powerUsage t)\<rparr>
                    in if mining t = 0 then tick_idle e tariff_limit s1
                       else
                         let r = tick_mining e det t tariff_limit threshold s1
                         in ((fst r)\<lparr>lastSync := now_end e\<rparr>, snd r)
                  else (s\<lparr>lastSync := now_end e\<rparr>, []))"

text \<open>A run of the device: the ticks of a list of environments, oldest first.\<close>

fun run :: "tick_env list \<Rightarrow> rig_state \<Rightarrow> rig_state" where
  "run [] s = s"
| "run (e # es) s = run es (fst (syncRigDetails e s))"


section \<open>The dashboard: fleet-wide aggregation\<close>

text \<open>
  \<open>gatherDetails\<close> sums eleven store values over the rig devices. A rig is given by its
  store. What \<open>getStoreValue\<close> yields for a key that was never stored is decided by the
  host; the number it adds as is the parameter \<open>absent\<close>.
\<close>

definition dashboard_metrics :: "string list" where
  "dashboard_metrics = [''measure_power'', ''meter_power'', ''measure_profit'',
     ''measure_profit_scarab'', ''meter_profit'', ''meter_profit_scarab'', ''measure_cost'',
     ''measure_cost_scarab'', ''meter_cost'', ''meter_cost_scarab'', ''hashrate'']"

definition getStoreValue :: "jsnum \<Rightarrow> store \<Rightarrow> string \<Rightarrow> jsnum" where
  "getStoreValue absent rig metric = (case rig metric of None \<Rightarrow> absent | Some v \<Rightarrow> v)"

text \<open>The inner loop \<open>for (const rig of rigDevices) value += add\<close>, from the initial \<open>0\<close>.\<close>

definition metric_sum :: "jsnum \<Rightarrow> store list \<Rightarrow> string \<Rightarrow> jsnum" where
  "metric_sum absent rigDevices metric =
     fold (\<lambda>rig v. js_add v (getStoreValue absent rig metric)) rigDevices (Num 0)"

text \<open>The map \<open>metrics\<close> after the \<open>forEach\<close>.\<close>

definition metrics_of :: "jsnum \<Rightarrow> store list \<Rightarrow> store" where
  "metrics_of absent rigDevices =
     (\<lambda>m. if m \<in> set dashboard_metrics then Some (metric_sum absent rigDevices m) else None)"

text \<open>The value that \<open>gatherDetails\<close> writes to the capability \<open>measure_profit_percent\<close>.\<close>

definition fleet_profit_percent :: "jsnum \<Rightarrow> store list \<Rightarrow> jsnum" where
  "fleet_profit_percent absent rigDevices =
     (let revenue = js_or (metrics_of absent rigDevices ''measure_profit'') (Num 0);
          cost = js_or (metrics_of absent rigDevices ''measure_cost'') (Num 0);
          profit = js_sub revenue cost
      in js_round (js_mul (js_div profit cost) (Num 100)))"

text \<open>
  The numeric capabilities after one run of \<open>gatherDetails\<close> (the text capability
  \<open>rigs_mining\<close> is left out); \<open>None\<close> for \<open>rigDevices\<close> is a missing rig driver.
\<close>

definition gatherDetails :: "jsnum \<Rightarrow> store list option \<Rightarrow> store \<Rightarrow> store" where
  "gatherDetails absent driver caps =
     (case driver of
        None \<Rightarrow> caps
      | Some rigDevices \<Rightarrow>
          (\<lambda>c. if c = ''measure_profit_percent'' then Some (fleet_profit_percent absent rigDevices)
               else if c \<in> set dashboard_metrics
               then Some (js_div (js_round (js_mul (metric_sum absent rigDevices c) (Num 100)))
                            (Num 100))
               else caps c))"

section \<open>Request signing and the API client\<close>

text \<open>
  A query or a body is a string or an object. Objects, their query-string and JSON
  serialisations, the object spread and HMAC-SHA256 with its hexadecimal encoding come from
  the language and from the libraries \<open>qs\<close> and \<open>crypto-js\<close>; they are parameters of the model,
  as is the version string of \<open>package.json\<close>.
\<close>

datatype 'o jsval = Str string | Obj 'o

record 'o libs =
  qs_stringify :: "'o \<Rightarrow> string"
  qs_parse :: "string \<Rightarrow> 'o"
  json_stringify :: "'o \<Rightarrow> string"
  spread :: "'o \<Rightarrow> 'o jsval option \<Rightarrow> 'o"
  hmac_sha256_hex :: "string \<Rightarrow> string \<Rightarrow> string"
  version :: string

record 'o request =
  req_method :: string
  req_path :: string
  req_query :: "'o jsval option"
  req_body :: "'o jsval option"

text \<open>Truthiness of an optional string or object: \<open>undefined\<close> and \<open>''\<close> are falsy.\<close>

definition val_truthy :: "'o jsval option \<Rightarrow> bool" where
  "val_truthy v = (case v of None \<Rightarrow> False | Some (Str s) \<Rightarrow> s \<noteq> [] | Some (Obj ob) \<Rightarrow> True)"

definition NUL :: char where
  "NUL = CHR 0x00"

text \<open>
  The incremental HMAC object: the key and the message fed so far. \<open>finalize\<close> hands both
  to the library function.
\<close>

record hmac_state =
  hmac_key :: string
  hmac_message :: string

definition hmac_create :: "string \<Rightarrow> hmac_state" where
  "hmac_create k = \<lparr>hmac_key = k, hmac_message = []\<rparr>"

definition hmac_update :: "string \<Rightarrow> hmac_state \<Rightarrow> hmac_state" where
  "hmac_update s h = h\<lparr>hmac_message := hmac_message h @ s\<rparr>"

definition hmac_finalize_hex :: "'o libs \<Rightarrow> hmac_state \<Rightarrow> string" where
  "hmac_finalize_hex L h = hmac_sha256_hex L (hmac_key h) (hmac_message h)"

text \<open>\<open>organizationId\<close> is \<open>None\<close> when the argument is left out; it then defaults to \<open>''\<close>.\<close>

definition getAuthHeader ::
  "'o libs \<Rightarrow> string \<Rightarrow> string \<Rightarrow> string \<Rightarrow> string \<Rightarrow> string option \<Rightarrow> 'o request \<Rightarrow> string" where
  "getAuthHeader L apiKey apiSecret time nonce organizationId request =
     (let org = (case organizationId of None \<Rightarrow> [] | Some x \<Rightarrow> x);
          h1 = hmac_update apiKey (hmac_create apiSecret);
          h2 = hmac_update [NUL] h1;
          h3 = hmac_update time h2;
          h4 = hmac_update [NUL] h3;
          h5 = hmac_update nonce h4;
          h6 = hmac_update [NUL] h5;
          h7 = hmac_update [NUL] h6;
          h8 = (if org \<noteq> [] then hmac_update org h7 else h7);
          h9 = hmac_update [NUL] h8;
          h10 = hmac_update [NUL] h9;
          h11 = hmac_update (req_method request) h10;
          h12 = hmac_update [NUL] h11;
          h13 = hmac_update (req_path request) h12;
          h14 = hmac_update [NUL] h13;
          h15 = (case req_query request of
                   None \<Rightarrow> h14
                 | Some q \<Rightarrow>
                     if val_truthy (Some q)
                     then hmac_update (case q of Obj ob \<Rightarrow> qs_stringify L ob | Str str \<Rightarrow> str) h14
                     else h14);
          h16 = (case req_body request of
                   None \<Rightarrow> h15
                 | Some b \<Rightarrow>
                     if val_truthy (Some b)
                     then hmac_update (case b of Obj ob \<Rightarrow> json_stringify L ob | Str str \<Rightarrow> str)
                            (hmac_update [NUL] h15)
                     else h15)
      in apiKey @ '':'' @ hmac_finalize_hex L h16)"

text \<open>\<open>Number.prototype.toString\<close> on an integer.\<close>

fun digits10 :: "nat \<Rightarrow> string" where
  "digits10 n =
     (if n < 10 then [char_of (48 + n)] else digits10 (n div 10) @ [char_of (48 + n mod 10)])"

declare digits10.simps [simp del]

definition toString :: "int \<Rightarrow> string" where
  "toString i = (if i < 0 then CHR ''-'' # digits10 (nat (- i)) else digits10 (nat i))"

text \<open>\<open>path.split('?')\<close>, of which the source keeps the first two parts.\<close>

definition split_path :: "string \<Rightarrow> string \<times> string option" where
  "split_path p =
     (let not_qm = (\<lambda>c. c \<noteq> CHR ''?'')
      in (takeWhile not_qm p,
          case dropWhile not_qm p of [] \<Rightarrow> None | c # r \<Rightarrow> Some (takeWhile not_qm r)))"

record api =
  api_locale :: string
  host :: string
  key :: string
  secret :: string
  org :: string
  localTimeDiff :: "int option"

record 'o call_options =
  opt_query :: "'o jsval option"
  opt_body :: "'o jsval option"
  opt_time :: "int option"

text \<open>The options object handed to \<open>request\<close>, with the headers the claims are about.\<close>

record 'o http_request =
  uri :: string
  http_method :: string
  x_request_id :: string
  x_user_agent :: string
  x_time :: string
  x_nonce :: string
  x_user_lang :: string
  x_organization_id :: string
  x_auth :: string
  qs :: "'o jsval option"
  http_body :: "'o jsval option"

datatype api_error = NotSynced

text \<open>
  The number that becomes \<open>timestamp\<close>: \<open>time || (+new Date() + this.localTimeDiff)\<close>.
  An override of \<open>0\<close> is falsy.
\<close>

definition timestamp_of :: "int option \<Rightarrow> int \<Rightarrow> int \<Rightarrow> int" where
  "timestamp_of time now diff =
     (case time of None \<Rightarrow> now + diff | Some t \<Rightarrow> if t \<noteq> 0 then t else now + diff)"

text \<open>
  \<open>apiCall\<close>, up to the call of \<open>request\<close>; \<open>now\<close> is the reading of the local clock and
  \<open>nonce\<close> the result of \<open>createNonce\<close>.
\<close>

text \<open>The query after \<open>if (pathQuery) query = { ...qs.parse(pathQuery), ...query }\<close>.\<close>

definition merged_query :: "'o libs \<Rightarrow> string \<Rightarrow> 'o jsval option \<Rightarrow> 'o jsval option" where
  "merged_query L path query =
     (case snd (split_path path) of
        None \<Rightarrow> query
      | Some pq \<Rightarrow> if pq \<noteq> [] then Some (Obj (spread L (qs_parse L pq) query)) else query)"

definition apiCall ::
  "'o libs \<Rightarrow> api \<Rightarrow> int \<Rightarrow> string \<Rightarrow> string \<Rightarrow> string \<Rightarrow> 'o call_options
     \<Rightarrow> api_error + 'o http_request" where
  "apiCall L a now nonce method_name path opts =
     (case localTimeDiff a of
        None \<Rightarrow> Inl NotSynced
      | Some diff \<Rightarrow>
          let pathOnly = fst (split_path path);
              query = merged_query L path (opt_query opts);
              timestamp = toString (timestamp_of (opt_time opts) now diff)
          in Inr \<lparr>uri = host a @ pathOnly, http_method = method_name, x_request_id = nonce,
                  x_user_agent = ''homey-nicehash-remote/'' @ version L, x_time = timestamp,
                  x_nonce = nonce, x_user_lang = api_locale a, x_organization_id = org a,
                  x_auth = getAuthHeader L (key a) (secret a) timestamp nonce (Some (org a))
                             \<lparr>req_method = method_name, req_path = pathOnly, req_query = query,
                               req_body = opt_body opts\<rparr>,
                  qs = query, http_body = opt_body opts\<rparr>)"

section \<open>Specification-side definitions\<close>

text \<open>
  The canonical message in the words of the specification: the fields in order, separated
  by a single null byte.
\<close>

fun join_nul :: "string list \<Rightarrow> string" where
  "join_nul [] = []"
| "join_nul [f] = f"
| "join_nul (f # g # fs) = f @ [NUL] @ join_nul (g # fs)"


text \<open>The text an organisation id, a query and a body contribute to the message.\<close>

definition org_text :: "string option \<Rightarrow> string" where
  "org_text organizationId = (case organizationId of None \<Rightarrow> [] | Some x \<Rightarrow> x)"

definition query_text :: "'o libs \<Rightarrow> 'o jsval option \<Rightarrow> string" where
  "query_text L q =
     (case q of None \<Rightarrow> [] | Some (Str str) \<Rightarrow> str | Some (Obj ob) \<Rightarrow> qs_stringify L ob)"

definition body_text :: "'o libs \<Rightarrow> 'o jsval option \<Rightarrow> string" where
  "body_text L b =
     (case b of None \<Rightarrow> [] | Some (Str str) \<Rightarrow> str | Some (Obj ob) \<Rightarrow> json_stringify L ob)"

definition canonical_message ::
  "'o libs \<Rightarrow> string \<Rightarrow> string \<Rightarrow> string \<Rightarrow> string option \<Rightarrow> 'o request \<Rightarrow> string" where
  "canonical_message L apiKey time nonce organizationId request =
     join_nul [apiKey, time, nonce, [], org_text organizationId, [], req_method request,
               req_path request, query_text L (req_query request)]
     @ (if val_truthy (req_body request) then [NUL] @ body_text L (req_body request) else [])"

text \<open>
  The kinds of tick, read off the payload: the tick aborts when the rig is not managed; it is
  an idle tick when the device lists were aggregated and no device is mining, and a mining
  tick when at least one is.
\<close>

definition idle_tick :: "tick_env \<Rightarrow> rig_details \<Rightarrow> bool" where
  "idle_tick e det =
     (details e = Some det \<and> \<not> not_managed det \<and> has_device_lists det
        \<and> mining (aggregate det) = 0)"

definition mining_tick :: "tick_env \<Rightarrow> rig_details \<Rightarrow> bool" where
  "mining_tick e det =
     (details e = Some det \<and> \<not> not_managed det \<and> has_device_lists det
        \<and> mining (aggregate det) > 0)"

definition threshold_of :: "tick_env \<Rightarrow> jsnum" where
  "threshold_of e = js_or (min_profitability_setting e) (Num 0)"

text \<open>The net profit percentage of a mining tick (\<open>profitPct\<close> of the source).\<close>

definition current_profitPct :: "tick_env \<Rightarrow> rig_details \<Rightarrow> jsnum" where
  "current_profitPct e det =
     (let t = aggregate det
      in profitPct (profit_calc (power_tariff e) (bitcoinRate e) (mining t) (powerUsage t)
                      (profitability_now det t) Map.empty))"

text \<open>
  A benchmark is only ever started on a tick that found a previous \<open>lastSync\<close>, and both
  fields are cleared together.
\<close>

definition state_inv :: "rig_state \<Rightarrow> bool" where
  "state_inv s = (benchmarkStart s = 0 \<or> lastSync s > 0)"

text \<open>The rolling average fed with a list of profit percentages, oldest first.\<close>

definition ema_run :: "jsnum \<Rightarrow> jsnum list \<Rightarrow> jsnum" where
  "ema_run seed pcts = fold (\<lambda>pct rolling. ema rolling pct) pcts seed"

text \<open>The seven-hour timeout in the words of the specification.\<close>

definition timeout_elapsed :: "int \<Rightarrow> int \<Rightarrow> bool" where
  "timeout_elapsed now last_mined = (now - last_mined > 7 * 3600000)"


text \<open>
  The values of \<open>benchmarkStart\<close> and \<open>rollingProfit\<close> after the first step of the block
  \<open>if (hashrate)\<close>, and the test that the benchmark window has passed.
\<close>

definition bench_next :: "tick_env \<Rightarrow> rig_state \<Rightarrow> int" where
  "bench_next e s = (if benchmarkStart s = 0 then now_bench e else benchmarkStart s)"

definition roll_next :: "rig_state \<Rightarrow> jsnum \<Rightarrow> jsnum" where
  "roll_next s pct = (if benchmarkStart s = 0 then pct else ema (rollingProfit s) pct)"

definition window_elapsed :: "tick_env \<Rightarrow> rig_state \<Rightarrow> bool" where
  "window_elapsed e s =
     (bench_next e s > 0 \<and> now_check e - bench_next e s > smartMagicNumber * 60000)"

text \<open>
  The tick reaches the stop decision: the rig is mining with a hash rate, a previous
  \<open>lastSync\<close> exists and the benchmark window has passed. The stop decision is taken when
  the dual condition holds there.
\<close>

definition decision_reached :: "tick_env \<Rightarrow> rig_details \<Rightarrow> rig_state \<Rightarrow> bool" where
  "decision_reached e det s =
     (mining_tick e det \<and> lastSync s > 0 \<and> truthy (hashrate (aggregate det))
        \<and> window_elapsed e s)"

definition stop_decision :: "tick_env \<Rightarrow> rig_details \<Rightarrow> rig_state \<Rightarrow> bool" where
  "stop_decision e det s =
     (decision_reached e det s
        \<and> stop_condition (roll_next s (current_profitPct e det)) (current_profitPct e det)
             (threshold_of e))"

text \<open>
  The two tests of the loop over the legacy devices, the speeds of a v4 device, and the
  test that lets a v4 speed count.
\<close>

definition reports :: "legacy_device \<Rightarrow> bool" where
  "reports d = (dev_status d \<noteq> ''DISABLED'' \<and> dev_status d \<noteq> ''OFFLINE'')"

definition is_mining :: "legacy_device \<Rightarrow> bool" where
  "is_mining d = (dev_status d = ''MINING'')"

definition algorithmsSpeed_of :: "v4_device \<Rightarrow> v4_speed_entry list" where
  "algorithmsSpeed_of d = (case mdv_algorithmsSpeed d of None \<Rightarrow> [] | Some sps \<Rightarrow> sps)"

definition positive_speed :: "v4_speed_entry \<Rightarrow> bool" where
  "positive_speed a = js_gt (js_div (v4_speed a) (Num 1000000)) (Num 0)"

text \<open>
  The summed revenue and the summed cost of the fleet: the constants \<open>revenue\<close> and
  \<open>costPerDayMBTC\<close> of \<open>gatherDetails\<close>, each read from the map of sums with \<open>|| 0\<close>.
\<close>

definition summed_revenue :: "jsnum \<Rightarrow> store list \<Rightarrow> jsnum" where
  "summed_revenue absent rigDevices =
     js_or (Some (metric_sum absent rigDevices ''measure_profit'')) (Num 0)"

definition summed_cost :: "jsnum \<Rightarrow> store list \<Rightarrow> jsnum" where
  "summed_cost absent rigDevices =
     js_or (Some (metric_sum absent rigDevices ''measure_cost'')) (Num 0)"

text \<open>The headers of an API call, when the call is made.\<close>

definition x_time_of :: "api_error + 'o http_request \<Rightarrow> string option" where
  "x_time_of res = (case res of Inl err \<Rightarrow> None | Inr r \<Rightarrow> Some (x_time r))"

definition x_auth_of :: "api_error + 'o http_request \<Rightarrow> string option" where
  "x_auth_of res = (case res of Inl err \<Rightarrow> None | Inr r \<Rightarrow> Some (x_auth r))"

section \<open>Example inputs\<close>

text \<open>
  A rig with one legacy device drawing 100 W, an exchange rate of 50000 per BTC, autopilot
  switched on and the default minimum profitability of 0; a state in which the rig has been
  mining for more than seven minutes.
\<close>

definition ex_device :: "string \<Rightarrow> speed_entry list \<Rightarrow> legacy_device" where
  "ex_device st sps = \<lparr>dev_status = st, dev_temperature = Num 60, dev_powerUsage = Num 100,
     dev_load = Num 90, dev_speeds = sps\<rparr>"

definition ex_details :: "string \<Rightarrow> speed_entry list \<Rightarrow> jsnum \<Rightarrow> rig_details" where
  "ex_details st sps prof = \<lparr>rig_type = Some ''MANAGED'', devices = Some [ex_device st sps],
     hasV4Rigs = False, v4_devices = None, profitability = prof\<rparr>"

definition ex_speeds :: "speed_entry list" where
  "ex_speeds = [\<lparr>speed = Num 50, displaySuffix = ''MH''\<rparr>]"

definition ex_env :: "rig_details option \<Rightarrow> jsnum \<Rightarrow> int \<Rightarrow> tick_env" where
  "ex_env det tariff now = \<lparr>details = det, power_tariff = tariff,
     bitcoinRate = Some (Num 50000), smart_mode = True, min_profitability_setting = None,
     now_idle = now, now_mined = now, now_meter = now, now_bench = now, now_check = now,
     now_end = now\<rparr>"

text \<open>The same environment with a minimum profitability set by the user.\<close>

definition ex_env_min :: "jsnum \<Rightarrow> rig_details option \<Rightarrow> jsnum \<Rightarrow> int \<Rightarrow> tick_env" where
  "ex_env_min thr det tariff now =
     (ex_env det tariff now)\<lparr>min_profitability_setting := Some thr\<rparr>"

definition ex_state :: "jsnum \<Rightarrow> store \<Rightarrow> rig_state" where
  "ex_state rolling st = \<lparr>lastSync = 1700000000000, lastMined = 1700000000000,
     benchmarkStart = 1699999000000, rollingProfit = rolling, store = st\<rparr>"

text \<open>
  Payloads: a rig that mines at 50 MH, one whose only device reports \<open>MINING\<close> without
  any speed (it waits for a job), an idle rig, an unmanaged rig, a rig with one v4
  device that runs two algorithms, and a rig whose only v4 device is reported as
  \<open>DISABLED\<close> and runs nothing.
\<close>

definition det_mining :: "jsnum \<Rightarrow> rig_details" where
  "det_mining prof = ex_details ''MINING'' ex_speeds prof"

definition det_waiting :: rig_details where
  "det_waiting = ex_details ''MINING'' [] (Num (1 / 8192))"

definition det_idle :: rig_details where
  "det_idle = ex_details ''INACTIVE'' [] (Num 0)"

definition det_unmanaged :: rig_details where
  "det_unmanaged = \<lparr>rig_type = Some ''UNMANAGED'', devices = None, hasV4Rigs = False,
     v4_devices = None, profitability = Num 0\<rparr>"

definition det_v4 :: rig_details where
  "det_v4 = \<lparr>rig_type = Some ''MANAGED'', devices = None, hasV4Rigs = True,
     v4_devices = Some [\<lparr>v4_status = ''MINING'', mdv_algorithmsSpeed =
         Some [\<lparr>algorithm = 20, v4_speed = Num 30000000\<rparr>,
               \<lparr>algorithm = 21, v4_speed = Num 5000000\<rparr>],
       odv = [(''Power usage'', Num 120)]\<rparr>],
     profitability = Num (1 / 8192)\<rparr>"

definition det_v4_disabled :: rig_details where
  "det_v4_disabled = \<lparr>rig_type = Some ''MANAGED'', devices = None, hasV4Rigs = True,
     v4_devices = Some [\<lparr>v4_status = ''DISABLED'', mdv_algorithmsSpeed = Some [],
       odv = [(''Power usage'', Num 15), (''Temperature'', Num 40), (''Load'', Num 3)]\<rparr>],
     profitability = Num 0\<rparr>"

text \<open>An API client that is synchronised with an offset of 5 ms, over trivial libraries.\<close>

definition ex_libs :: "unit libs" where
  "ex_libs = \<lparr>qs_stringify = (\<lambda>ob. []), qs_parse = (\<lambda>str. ()),
     json_stringify = (\<lambda>ob. ''{}''), spread = (\<lambda>ob v. ()),
     hmac_sha256_hex = (\<lambda>k m. ''00''), version = ''1.0.0''\<rparr>"

definition ex_api :: api where
  "ex_api = \<lparr>api_locale = ''en'', host = ''https://api2.nicehash.com'', key = ''key'',
     secret = ''secret'', org = ''org'', localTimeDiff = Some 5\<rparr>"

definition ex_opts :: "int option \<Rightarrow> unit call_options" where
  "ex_opts t = \<lparr>opt_query = None, opt_body = None, opt_time = t\<rparr>"

section \<open>Rounding to the nearest double\<close>

lemma halvings_unfold:
  "halvings n y = (if n = 0 then 0 else if 2 \<le> y then Suc (halvings (n - 1) (y / 2)) else 0)"
  by (cases n) simp_all

lemma doublings_unfold:
  "doublings n y = (if n = 0 then 0 else if y < 1 then Suc (doublings (n - 1) (2 * y)) else 0)"
  by (cases n) simp_all

text \<open>The rules that evaluate \<open>dbl\<close> at a given rational.\<close>

lemmas dbl_eval = dbl_def expo_def pow2_def round_even_def halvings_unfold doublings_unfold
  js_signed_inf_def Let_def

lemma dbl_0: "dbl 0 = Num 0"
  by (simp add: dbl_def round_even_def Let_def)

lemma halvings_bounds:
  "1 \<le> y \<Longrightarrow> y < 2 ^ n \<Longrightarrow> 2 ^ halvings n y \<le> y \<and> y < 2 * 2 ^ halvings n y"
proof (induction n arbitrary: y)
  case 0
  then show ?case by simp
next
  case (Suc n)
  show ?case
  proof (cases "2 \<le> y")
    case True
    have "1 \<le> y / 2" "y / 2 < 2 ^ n"
      using True Suc.prems by simp_all
    from Suc.IH [OF this] True show ?thesis by simp
  next
    case False
    then show ?thesis using Suc.prems by simp
  qed
qed

lemma doublings_ge_1: "1 \<le> y \<Longrightarrow> doublings n y = 0"
  by (cases n) simp_all

lemma doublings_bounds:
  "0 < y \<Longrightarrow> y < 1 \<Longrightarrow> 1 / 2 ^ n \<le> y \<Longrightarrow>
   1 / 2 ^ doublings n y \<le> y \<and> y < 2 / 2 ^ doublings n y"
proof (induction n arbitrary: y)
  case 0
  then show ?case by simp
next
  case (Suc n)
  show ?case
  proof (cases "2 * y < 1")
    case True
    have "0 < 2 * y" "1 / 2 ^ n \<le> 2 * y"
      using Suc.prems by (simp_all add: field_simps)
    from Suc.IH [OF this(1) True this(2)] Suc.prems show ?thesis
      by (simp add: field_simps)
  next
    case False
    then have "doublings n (2 * y) = 0"
      by (simp add: doublings_ge_1)
    then show ?thesis using False Suc.prems by simp
  qed
qed

lemma expo_bounds:
  assumes "1 / 2 ^ 1000 \<le> \<bar>x\<bar>" and "\<bar>x\<bar> \<le> 2 ^ 1000"
  shows "pow2 (expo x) \<le> \<bar>x\<bar> \<and> \<bar>x\<bar> < 2 * pow2 (expo x)"
proof (cases "1 \<le> \<bar>x\<bar>")
  case True
  have "\<bar>x\<bar> < 2 ^ 1024"
    using assms(2) by (rule order_le_less_trans) simp
  from halvings_bounds [OF True this] True show ?thesis
    by (simp add: expo_def pow2_def)
next
  case False
  have pos: "0 < \<bar>x\<bar>"
    using assms(1) by (rule order_less_le_trans [rotated]) simp
  have "(1::real) / 2 ^ 1022 \<le> 1 / 2 ^ 1000" by simp
  then have "1 / 2 ^ 1022 \<le> \<bar>x\<bar>"
    using assms(1) by (rule order_trans)
  from doublings_bounds [OF pos _ this] False show ?thesis
    by (simp add: expo_def pow2_def power_int_minus field_simps)
qed

lemma round_even_error: "\<bar>of_int (round_even z) - z\<bar> \<le> 1 / 2"
proof -
  have "of_int \<lfloor>z\<rfloor> \<le> z" "z < of_int \<lfloor>z\<rfloor> + 1"
    by linarith+
  then show ?thesis
    by (auto simp: round_even_def abs_le_iff)
qed

text \<open>
  Away from underflow and overflow, rounding returns a number and changes its argument by
  a relative error of at most \<open>2\<^sup>-\<^sup>5\<^sup>3\<close>.
\<close>

lemma dbl_rel_error:
  assumes "1 / 2 ^ 1000 \<le> \<bar>x\<bar>" and "\<bar>x\<bar> \<le> 2 ^ 1000"
  shows "\<exists>d. \<bar>d\<bar> \<le> 1 / 2 ^ 53 \<and> dbl x = Num (x * (1 + d))"
proof -
  define u where "u = pow2 (expo x - 52)"
  define r where "r = of_int (round_even (x / u)) * u"
  have xpos: "0 < \<bar>x\<bar>"
    using assms(1) by (rule order_less_le_trans [rotated]) simp
  have u: "u = pow2 (expo x) / 2 ^ 52"
    by (simp add: u_def pow2_def power_int_diff)
  have upos: "0 < u"
    by (simp add: u_def pow2_def)
  from expo_bounds [OF assms] have "pow2 (expo x) \<le> \<bar>x\<bar>" by simp
  then have ux: "u / 2 \<le> \<bar>x\<bar> / 2 ^ 53"
    by (simp add: u field_simps)
  have "r - x = (of_int (round_even (x / u)) - x / u) * u"
    using upos by (simp add: r_def field_simps)
  then have "\<bar>r - x\<bar> = \<bar>of_int (round_even (x / u)) - x / u\<bar> * u"
    using upos by (simp add: abs_mult)
  also have "\<dots> \<le> 1 / 2 * u"
    using upos round_even_error [of "x / u"] by (intro mult_right_mono) simp_all
  finally have err: "\<bar>r - x\<bar> \<le> \<bar>x\<bar> / 2 ^ 53"
    using ux by simp
  have "\<bar>r\<bar> \<le> \<bar>x\<bar> + \<bar>r - x\<bar>" by simp
  also have "\<dots> \<le> 2 * \<bar>x\<bar>"
  proof -
    have "\<bar>x\<bar> / 2 ^ 53 \<le> \<bar>x\<bar>"
      using xpos by (simp add: field_simps)
    with err show ?thesis by linarith
  qed
  also have "\<dots> \<le> 2 * 2 ^ 1000"
    using assms(2) by simp
  also have "\<dots> < (2::real) ^ 1024" by simp
  finally have fin: "\<not> 2 ^ 1024 \<le> \<bar>r\<bar>" by simp
  have val: "dbl x = Num r"
    using fin by (simp add: dbl_def Let_def u_def [symmetric] r_def [symmetric])
  define d where "d = (r - x) / x"
  have x0: "x \<noteq> 0" using xpos by simp
  have "\<bar>d\<bar> = \<bar>r - x\<bar> / \<bar>x\<bar>"
    by (simp add: d_def)
  also have "\<dots> \<le> 1 / 2 ^ 53"
    using err xpos by (simp add: field_simps)
  finally have "\<bar>d\<bar> \<le> 1 / 2 ^ 53" .
  moreover have "x * (1 + d) = r"
    using x0 by (simp add: d_def field_simps)
  ultimately show ?thesis
    using val by auto
qed


section \<open>The rolling average in double arithmetic\<close>

lemma ema_consts:
  "dbl (6 / 7) = Num (7720456504063707 / 9007199254740992)"
  "dbl (1 / 7) = Num (2573485501354569 / 18014398509481984)"
  by (simp_all add: dbl_eval)

lemma ema_Num:
  "ema (Num r) (Num p) =
     js_add (dbl (r * (7720456504063707 / 9007199254740992)))
            (dbl (p * (2573485501354569 / 18014398509481984)))"
  by (simp add: ema_def smartMagicNumber_def ema_consts)

lemma ema_0: "ema (Num 0) (Num 0) = Num 0"
  by (simp add: ema_Num dbl_0)

lemma range_mult:
  assumes "1 / 2 ^ 900 \<le> \<bar>p\<bar>" and "\<bar>p\<bar> \<le> 2 ^ 900" and "1 / 8 \<le> (f::real)" and "f \<le> 2"
  shows "1 / 2 ^ 1000 \<le> \<bar>p * f\<bar>" and "\<bar>p * f\<bar> \<le> 2 ^ 1000"
proof -
  have f0: "0 \<le> f" using assms(3) by simp
  have eq: "\<bar>p * f\<bar> = \<bar>p\<bar> * f"
    using f0 by (simp add: abs_mult)
  have "(1 / 2 ^ 900) * (1 / 8) \<le> \<bar>p\<bar> * f"
    using assms(1,3) by (intro mult_mono) simp_all
  moreover have "(1::real) / 2 ^ 1000 \<le> (1 / 2 ^ 900) * (1 / 8)" by simp
  ultimately show "1 / 2 ^ 1000 \<le> \<bar>p * f\<bar>"
    unfolding eq by (rule order_trans [rotated])
  have "\<bar>p\<bar> * f \<le> 2 ^ 900 * 2"
    using assms(2,4) f0 by (intro mult_mono) simp_all
  moreover have "(2::real) ^ 900 * 2 \<le> 2 ^ 1000" by simp
  ultimately show "\<bar>p * f\<bar> \<le> 2 ^ 1000"
    unfolding eq by (rule order_trans)
qed

lemma dbl_scaled:
  assumes "1 / 2 ^ 900 \<le> \<bar>p\<bar>" and "\<bar>p\<bar> \<le> 2 ^ 900" and "1 / 8 \<le> (f::real)" and "f \<le> 2"
  shows "\<exists>d. \<bar>d\<bar> \<le> 1 / 2 ^ 53 \<and> dbl (p * f) = Num (p * (f * (1 + d)))"
  using dbl_rel_error [OF range_mult [OF assms]] by (simp add: mult.assoc)

text \<open>
  One step of the rolling average with the input \<open>p\<close>, from a value within \<open>2\<^sup>-\<^sup>4\<^sup>8\<close> of
  \<open>p\<close> (relatively), stays within \<open>2\<^sup>-\<^sup>4\<^sup>8\<close> of \<open>p\<close>.
\<close>

lemma ema_step_tolerance:
  assumes p: "1 / 2 ^ 900 \<le> \<bar>p\<bar>" "\<bar>p\<bar> \<le> 2 ^ 900"
    and q: "\<bar>q - 1\<bar> \<le> 1 / 2 ^ 48"
  shows "\<exists>q'. \<bar>q' - 1\<bar> \<le> 1 / 2 ^ 48 \<and> ema (Num (p * q)) (Num p) = Num (p * q')"
proof -
  define A :: real where "A = 7720456504063707 / 9007199254740992"
  define B :: real where "B = 2573485501354569 / 18014398509481984"
  define E :: real where "E = 1 / 2 ^ 48"
  define u :: real where "u = 1 / 2 ^ 53"
  have qb: "1 - E \<le> q" "q \<le> 1 + E"
    using q unfolding E_def by linarith+
  have qA: "1 / 8 \<le> q * A" "q * A \<le> 2"
  proof -
    have "(1 - E) * A \<le> q * A" "q * A \<le> (1 + E) * A"
      using qb by (simp_all add: A_def)
    then show "1 / 8 \<le> q * A" "q * A \<le> 2"
      by (simp_all add: A_def E_def)
  qed
  obtain d1 where d1: "\<bar>d1\<bar> \<le> u" "dbl (p * (q * A)) = Num (p * (q * A * (1 + d1)))"
    using dbl_scaled [OF p qA] by (auto simp: u_def)
  have "1 / 8 \<le> B" "B \<le> 2" by (simp_all add: B_def)
  then obtain d2 where d2: "\<bar>d2\<bar> \<le> u" "dbl (p * B) = Num (p * (B * (1 + d2)))"
    using dbl_scaled [OF p] by (auto simp: u_def)
  define t where "t = q * A * (1 + d1) + B * (1 + d2)"
  have d1b: "1 - u \<le> 1 + d1" "1 + d1 \<le> 1 + u"
    using d1(1) by linarith+
  have d2b: "1 - u \<le> 1 + d2" "1 + d2 \<le> 1 + u"
    using d2(1) by linarith+
  have upos: "0 \<le> 1 - u" "0 \<le> 1 - E" "0 \<le> A" "0 \<le> B"
    by (simp_all add: u_def E_def A_def B_def)
  have qd_lo: "(1 - E) * (1 - u) \<le> q * (1 + d1)"
    using qb(1) d1b(1) upos by (intro mult_mono) simp_all
  have qd_hi: "q * (1 + d1) \<le> (1 + E) * (1 + u)"
    using qb d1b upos by (intro mult_mono) simp_all
  have t_eq: "t = A * (q * (1 + d1)) + B * (1 + d2)"
    by (simp add: t_def algebra_simps)
  have t_lo: "A * ((1 - E) * (1 - u)) + B * (1 - u) \<le> t"
    unfolding t_eq using qd_lo d2b(1) upos
    by (intro add_mono mult_left_mono) simp_all
  have t_hi: "t \<le> A * ((1 + E) * (1 + u)) + B * (1 + u)"
    unfolding t_eq using qd_hi d2b(2) upos
    by (intro add_mono mult_left_mono) simp_all
  have tr: "1 / 8 \<le> t" "t \<le> 2"
  proof -
    have "1 / 8 \<le> A * ((1 - E) * (1 - u)) + B * (1 - u)"
      by (simp add: A_def B_def E_def u_def)
    with t_lo show "1 / 8 \<le> t" by simp
    have "A * ((1 + E) * (1 + u)) + B * (1 + u) \<le> 2"
      by (simp add: A_def B_def E_def u_def)
    with t_hi show "t \<le> 2" by simp
  qed
  obtain d3 where d3: "\<bar>d3\<bar> \<le> u" "dbl (p * t) = Num (p * (t * (1 + d3)))"
    using dbl_scaled [OF p tr] by (auto simp: u_def)
  have d3b: "1 - u \<le> 1 + d3" "1 + d3 \<le> 1 + u"
    using d3(1) by linarith+
  have t0: "0 \<le> t" using tr(1) by simp
  have d3pos: "0 \<le> 1 + d3" using d3b(1) upos(1) by linarith
  have lo0: "0 \<le> A * ((1 - E) * (1 - u)) + B * (1 - u)"
    by (simp add: A_def B_def E_def u_def)
  have "(A * ((1 - E) * (1 - u)) + B * (1 - u)) * (1 - u) \<le> t * (1 + d3)"
    using t_lo d3b(1) upos lo0 t0 by (intro mult_mono) simp_all
  moreover have "1 - E \<le> (A * ((1 - E) * (1 - u)) + B * (1 - u)) * (1 - u)"
    by (simp add: A_def B_def E_def u_def)
  ultimately have lo: "1 - E \<le> t * (1 + d3)" by simp
  have "t * (1 + d3) \<le> (A * ((1 + E) * (1 + u)) + B * (1 + u)) * (1 + u)"
    using t_hi d3b(2) t0 d3pos by (intro mult_mono) simp_all
  moreover have "(A * ((1 + E) * (1 + u)) + B * (1 + u)) * (1 + u) \<le> 1 + E"
    by (simp add: A_def B_def E_def u_def)
  ultimately have hi: "t * (1 + d3) \<le> 1 + E" by simp
  have "ema (Num (p * q)) (Num p) = js_add (dbl (p * (q * A))) (dbl (p * B))"
    by (simp add: ema_Num A_def B_def mult.assoc)
  also have "\<dots> = dbl (p * (q * A * (1 + d1)) + p * (B * (1 + d2)))"
    by (simp add: d1(2) d2(2))
  also have "p * (q * A * (1 + d1)) + p * (B * (1 + d2)) = p * t"
    by (simp add: t_def algebra_simps)
  finally have "ema (Num (p * q)) (Num p) = Num (p * (t * (1 + d3)))"
    by (simp add: d3(2))
  moreover have "\<bar>t * (1 + d3) - 1\<bar> \<le> 1 / 2 ^ 48"
    using lo hi unfolding E_def by linarith
  ultimately show ?thesis by blast
qed

lemma ema_run_tolerance_aux:
  assumes p: "1 / 2 ^ 900 \<le> \<bar>p\<bar>" "\<bar>p\<bar> \<le> 2 ^ 900"
  shows "\<bar>q - 1\<bar> \<le> 1 / 2 ^ 48 \<Longrightarrow>
    \<exists>q'. \<bar>q' - 1\<bar> \<le> 1 / 2 ^ 48 \<and> ema_run (Num (p * q)) (replicate n (Num p)) = Num (p * q')"
proof (induction n arbitrary: q)
  case 0
  then show ?case by (auto simp: ema_run_def)
next
  case (Suc n)
  from ema_step_tolerance [OF p Suc.prems] obtain q1
    where q1: "\<bar>q1 - 1\<bar> \<le> 1 / 2 ^ 48" "ema (Num (p * q)) (Num p) = Num (p * q1)"
    by blast
  have "ema_run (Num (p * q)) (replicate (Suc n) (Num p))
          = ema_run (ema (Num (p * q)) (Num p)) (replicate n (Num p))"
    by (simp add: ema_run_def)
  with Suc.IH [OF q1(1)] q1(2) show ?case by simp
qed

lemma ema_run_0: "ema_run (Num 0) (replicate n (Num 0)) = Num 0"
  by (induction n) (simp_all add: ema_run_def ema_0)

text \<open>
  Seeded with \<open>p\<close> and fed with \<open>p\<close> on every tick, the rolling average stays within a
  relative distance of \<open>2\<^sup>-\<^sup>4\<^sup>8\<close> of \<open>p\<close>.
\<close>

lemma ema_run_tolerance:
  assumes "p = 0 \<or> (1 / 2 ^ 900 \<le> \<bar>p\<bar> \<and> \<bar>p\<bar> \<le> 2 ^ 900)"
  shows "\<exists>r. ema_run (Num p) (replicate n (Num p)) = Num r \<and> \<bar>r - p\<bar> \<le> \<bar>p\<bar> / 2 ^ 48"
proof (cases "p = 0")
  case True
  then show ?thesis by (simp add: ema_run_0)
next
  case False
  with assms have p: "1 / 2 ^ 900 \<le> \<bar>p\<bar>" "\<bar>p\<bar> \<le> 2 ^ 900" by simp_all
  from ema_run_tolerance_aux [OF p, of 1 n] obtain q
    where q: "\<bar>q - 1\<bar> \<le> 1 / 2 ^ 48" "ema_run (Num p) (replicate n (Num p)) = Num (p * q)"
    by auto
  have "\<bar>p * q - p\<bar> = \<bar>p\<bar> * \<bar>q - 1\<bar>"
    by (simp add: abs_mult [symmetric] algebra_simps)
  also have "\<dots> \<le> \<bar>p\<bar> * (1 / 2 ^ 48)"
    using q(1) by (intro mult_left_mono) simp_all
  finally show ?thesis using q(2) by simp
qed


section \<open>The request signer\<close>

lemma hmac_update_message: "hmac_message (hmac_update str h) = hmac_message h @ str"
  by (simp add: hmac_update_def)

lemma hmac_update_key: "hmac_key (hmac_update str h) = hmac_key h"
  by (simp add: hmac_update_def)

text \<open>
  Claim C1. For all inputs, \<open>getAuthHeader\<close> returns the API key, a colon and the
  hexadecimal HMAC-SHA256 digest, keyed by the API secret, of the canonical message: the
  fields API key, time, nonce, an empty field, organisation id, an empty field, method,
  path and query, in this order and separated by single null bytes, followed by a null
  byte and the body only when a body is present. An object query enters as its query
  string and an object body as its JSON text. A body is present when the source's test
  \<open>if (request.body)\<close> holds, that is for an object and for a non-empty string. The
  result is a function of the arguments alone.
\<close>

theorem getAuthHeader_canonical:
  "getAuthHeader L apiKey apiSecret time nonce organizationId request =
     apiKey @ '':'' @ hmac_sha256_hex L apiSecret
       (canonical_message L apiKey time nonce organizationId request)
   \<and> canonical_message L apiKey time nonce organizationId request =
       apiKey @ [NUL] @ time @ [NUL] @ nonce @ [NUL] @ [NUL] @ org_text organizationId
         @ [NUL] @ [NUL] @ req_method request @ [NUL] @ req_path request @ [NUL]
         @ query_text L (req_query request)
         @ (if val_truthy (req_body request) then [NUL] @ body_text L (req_body request)
            else [])"
  by (simp add: getAuthHeader_def canonical_message_def hmac_finalize_hex_def Let_def
        hmac_update_message hmac_update_key hmac_create_def org_text_def query_text_def
        body_text_def val_truthy_def split: option.splits jsval.splits)

section \<open>The polling tick, branch by branch\<close>

lemma profit_calc_profitPct:
  "profitPct (profit_calc tariff rate n u prof st) = profitPct (profit_calc tariff rate n u prof st')"
  by (simp add: profit_calc_def Let_def split: option.splits)

lemma profit_calc_tariff_limit:
  "pr_store (profit_calc tariff rate n u prof st) ''tariff_limit'' = st ''tariff_limit''"
  by (simp add: profit_calc_def Let_def split: option.splits)

lemma profit_calc_guard:
  "\<not> js_gt (costPerDayMBTC (profit_calc tariff rate n u prof st)) (Num 0)
     \<Longrightarrow> profitPct (profit_calc tariff rate n u prof st) = Num 0"
  by (simp add: profit_calc_def Let_def split: option.splits if_splits)

lemma meters_tariff_limit:
  "meters now ls u prof cost mrate st ''tariff_limit'' = st ''tariff_limit''"
  by (simp add: meters_def Let_def)

lemma bench_next_upd:
  "bench_next e (s\<lparr>store := st\<rparr>) = bench_next e s"
  "bench_next e (s\<lparr>lastMined := m\<rparr>) = bench_next e s"
  by (simp_all add: bench_next_def)

lemma roll_next_upd:
  "roll_next (s\<lparr>store := st\<rparr>) pct = roll_next s pct"
  "roll_next (s\<lparr>lastMined := m\<rparr>) pct = roll_next s pct"
  by (simp_all add: roll_next_def)

lemma window_elapsed_upd:
  "window_elapsed e (s\<lparr>store := st\<rparr>) = window_elapsed e s"
  "window_elapsed e (s\<lparr>lastMined := m\<rparr>) = window_elapsed e s"
  by (simp_all add: window_elapsed_def bench_next_upd)

lemmas upd_simps = bench_next_upd roll_next_upd window_elapsed_upd

lemma assess_cmds:
  "snd (assess e lmt thr pct s) =
     (if window_elapsed e s \<and> stop_condition (roll_next s pct) pct thr \<and> smart_mode e
      then [Stop] else [])"
  by (auto simp: assess_def Let_def window_elapsed_def bench_next_def roll_next_def)

lemma assess_rolling: "rollingProfit (fst (assess e lmt thr pct s)) = roll_next s pct"
  by (auto simp: assess_def Let_def roll_next_def)

lemma assess_benchmarkStart: "benchmarkStart (fst (assess e lmt thr pct s)) = bench_next e s"
  by (auto simp: assess_def Let_def bench_next_def)

lemma assess_store:
  "store (fst (assess e lmt thr pct s)) =
     (if window_elapsed e s
         \<and> (stop_condition (roll_next s pct) pct thr \<or> js_gt (power_tariff e) lmt)
      then (store s)(''tariff_limit'' \<mapsto> power_tariff e) else store s)"
  by (auto simp: assess_def Let_def window_elapsed_def bench_next_def roll_next_def)

lemma tick_mining_pct:
  "t = aggregate det \<Longrightarrow>
   profitPct (profit_calc (power_tariff e) (bitcoinRate e) (mining t) (powerUsage t)
      (profitability_now det t) st)
   = current_profitPct e det"
  unfolding current_profitPct_def Let_def
  by (simp add: profit_calc_profitPct [of _ _ _ _ _ st Map.empty])

lemma tick_mining_cmds:
  "t = aggregate det \<Longrightarrow>
   snd (tick_mining e det t lmt thr s) =
     (if lastSync s > 0 \<and> truthy (hashrate t) \<and> window_elapsed e s
         \<and> stop_condition (roll_next s (current_profitPct e det)) (current_profitPct e det) thr
         \<and> smart_mode e
      then [Stop] else [])"
  by (simp add: tick_mining_def Let_def assess_cmds tick_mining_pct upd_simps)

lemma tick_mining_rolling:
  "t = aggregate det \<Longrightarrow>
   rollingProfit (fst (tick_mining e det t lmt thr s)) =
     (if lastSync s > 0 \<and> truthy (hashrate t) then roll_next s (current_profitPct e det)
      else rollingProfit s)"
  by (simp add: tick_mining_def Let_def assess_rolling tick_mining_pct upd_simps)

lemma tick_mining_benchmarkStart:
  "benchmarkStart (fst (tick_mining e det t lmt thr s)) =
     (if lastSync s > 0 \<and> truthy (hashrate t) then bench_next e s else benchmarkStart s)"
  by (simp add: tick_mining_def Let_def assess_benchmarkStart upd_simps)

lemma tick_mining_tariff_limit:
  "t = aggregate det \<Longrightarrow>
   store (fst (tick_mining e det t lmt thr s)) ''tariff_limit'' =
     (if lastSync s > 0 \<and> truthy (hashrate t) \<and> window_elapsed e s
         \<and> (stop_condition (roll_next s (current_profitPct e det)) (current_profitPct e det) thr
              \<or> js_gt (power_tariff e) lmt)
      then Some (power_tariff e) else store s ''tariff_limit'')"
  by (auto simp: tick_mining_def Let_def assess_store tick_mining_pct meters_tariff_limit
        profit_calc_tariff_limit upd_simps)

lemma sync_mining_tick:
  assumes "mining_tick e det"
  shows "syncRigDetails e s =
     ((fst (tick_mining e det (aggregate det) (tariff_limit_of (store s)) (threshold_of e)
              (s\<lparr>store := (store s)(''hashrate'' \<mapsto> hashrate (aggregate det),
                             ''measure_power'' \<mapsto> powerUsage (aggregate det))\<rparr>)))
         \<lparr>lastSync := now_end e\<rparr>,
      snd (tick_mining e det (aggregate det) (tariff_limit_of (store s)) (threshold_of e)
              (s\<lparr>store := (store s)(''hashrate'' \<mapsto> hashrate (aggregate det),
                             ''measure_power'' \<mapsto> powerUsage (aggregate det))\<rparr>)))"
  using assms by (simp add: syncRigDetails_def mining_tick_def threshold_of_def Let_def)

lemma sync_idle_tick:
  assumes "idle_tick e det"
  shows "syncRigDetails e s =
     tick_idle e (tariff_limit_of (store s))
       (s\<lparr>store := (store s)(''hashrate'' \<mapsto> hashrate (aggregate det),
                      ''measure_power'' \<mapsto> powerUsage (aggregate det))\<rparr>)"
  using assms by (simp add: syncRigDetails_def idle_tick_def Let_def)

lemma sync_cmds_mining:
  "mining_tick e det \<Longrightarrow>
   snd (syncRigDetails e s) =
     (if decision_reached e det s
         \<and> stop_condition (roll_next s (current_profitPct e det)) (current_profitPct e det)
              (threshold_of e)
         \<and> smart_mode e
      then [Stop] else [])"
  by (simp add: sync_mining_tick tick_mining_cmds decision_reached_def upd_simps)

lemma sync_rolling_mining:
  "mining_tick e det \<Longrightarrow>
   rollingProfit (fst (syncRigDetails e s)) =
     (if lastSync s > 0 \<and> truthy (hashrate (aggregate det))
      then roll_next s (current_profitPct e det) else rollingProfit s)"
  by (simp add: sync_mining_tick tick_mining_rolling upd_simps)

lemma sync_benchmarkStart_mining:
  "mining_tick e det \<Longrightarrow>
   benchmarkStart (fst (syncRigDetails e s)) =
     (if lastSync s > 0 \<and> truthy (hashrate (aggregate det)) then bench_next e s
      else benchmarkStart s)"
  by (simp add: sync_mining_tick tick_mining_benchmarkStart upd_simps)

lemma sync_cmds_idle:
  "idle_tick e det \<Longrightarrow>
   snd (syncRigDetails e s) =
     (if start_condition (smart_mode e) (tariff_limit_of (store s)) (power_tariff e)
           (lastMined s) (now_idle e)
      then [Start] else [])"
  by (simp add: sync_idle_tick tick_idle_def)

lemma sync_lastSync:
  "lastSync (fst (syncRigDetails e s)) =
     (case details e of
        None \<Rightarrow> lastSync s
      | Some det \<Rightarrow>
          if not_managed det then lastSync s
          else if has_device_lists det \<and> mining (aggregate det) = 0 then 0
          else now_end e)"
  by (simp add: syncRigDetails_def tick_idle_def Let_def split: option.splits)

lemma sync_tariff_limit:
  "store (fst (syncRigDetails e s)) ''tariff_limit'' =
     (case details e of
        None \<Rightarrow> store s ''tariff_limit''
      | Some det \<Rightarrow>
          if decision_reached e det s
             \<and> (stop_decision e det s \<or> js_gt (power_tariff e) (tariff_limit_of (store s)))
          then Some (power_tariff e) else store s ''tariff_limit'')"
proof (cases "details e")
  case None
  then show ?thesis by (simp add: syncRigDetails_def)
next
  case (Some det)
  show ?thesis
  proof (cases "mining_tick e det")
    case True
    then show ?thesis
      using Some
      by (auto simp: sync_mining_tick tick_mining_tariff_limit decision_reached_def
            stop_decision_def upd_simps)
  next
    case False
    then show ?thesis
      using Some
      by (auto simp: syncRigDetails_def mining_tick_def decision_reached_def tick_idle_def
            Let_def)
  qed
qed

text \<open>The invariant of the state.\<close>

lemma state_inv_initial: "state_inv initial_state"
  by (simp add: state_inv_def initial_state_def)

lemma state_inv_step:
  assumes "state_inv s" and "now_end e > 0"
  shows "state_inv (fst (syncRigDetails e s))"
proof (cases "details e")
  case None
  then show ?thesis using assms by (simp add: syncRigDetails_def)
next
  case (Some det)
  show ?thesis
  proof (cases "not_managed det \<or> (has_device_lists det \<and> mining (aggregate det) = 0)")
    case True
    then show ?thesis
      using Some assms
      by (auto simp: syncRigDetails_def state_inv_def tick_idle_def Let_def)
  next
    case False
    then have "lastSync (fst (syncRigDetails e s)) = now_end e"
      using Some by (auto simp: sync_lastSync)
    then show ?thesis
      using assms(2) by (simp add: state_inv_def)
  qed
qed

lemma state_inv_run:
  "state_inv s \<Longrightarrow> \<forall>e \<in> set es. now_end e > 0 \<Longrightarrow> state_inv (run es s)"
  by (induction es arbitrary: s) (simp_all add: state_inv_step)

section \<open>The example inputs, evaluated\<close>

lemma aggregate_ex:
  "aggregate (ex_details ''MINING'' sps prof) =
     \<lparr>powerUsage = Num 100, hashrate = fold speed_step sps (Num 0), mining = 1,
      temperature = Num 60, load = Num 90\<rparr>"
  by (simp add: aggregate_def ex_details_def ex_device_def legacy_step_def totals0_def
        js_max_def dbl_eval)

lemma ex_mining_tick:
  "mining_tick (ex_env (Some (ex_details ''MINING'' sps prof)) tariff now)
     (ex_details ''MINING'' sps prof)"
  by (simp add: mining_tick_def aggregate_ex)
     (simp add: ex_env_def ex_details_def not_managed_def has_device_lists_def)

lemma det_mining_facts:
  "mining_tick (ex_env (Some (det_mining prof)) tariff now) (det_mining prof)"
  "hashrate (aggregate (det_mining prof)) = Num 50"
  "mining (aggregate (det_mining prof)) = 1"
  "powerUsage (aggregate (det_mining prof)) = Num 100"
  "profitability (det_mining prof) = prof"
proof -
  show "mining_tick (ex_env (Some (det_mining prof)) tariff now) (det_mining prof)"
    unfolding det_mining_def by (rule ex_mining_tick)
  show "hashrate (aggregate (det_mining prof)) = Num 50"
    "mining (aggregate (det_mining prof)) = 1"
    "powerUsage (aggregate (det_mining prof)) = Num 100"
    unfolding det_mining_def
    by (simp_all add: aggregate_ex ex_speeds_def speed_step_def normalize_mh_def dbl_eval)
  show "profitability (det_mining prof) = prof"
    by (simp add: det_mining_def ex_details_def)
qed

lemma det_waiting_facts:
  "mining_tick (ex_env (Some det_waiting) tariff now) det_waiting"
  "hashrate (aggregate det_waiting) = Num 0"
  "mining (aggregate det_waiting) = 1"
  "powerUsage (aggregate det_waiting) = Num 100"
  unfolding det_waiting_def
  by (simp_all add: ex_mining_tick aggregate_ex)

lemma det_idle_facts:
  "\<not> not_managed det_idle" "has_device_lists det_idle" "mining (aggregate det_idle) = 0"
  by (simp_all add: det_idle_def aggregate_def ex_details_def ex_device_def legacy_step_def
        totals0_def Let_def not_managed_def has_device_lists_def)

lemma det_unmanaged_facts: "not_managed det_unmanaged"
  by (simp add: det_unmanaged_def not_managed_def)

lemma ex_env_fields:
  "details (ex_env det tariff now) = det"
  "power_tariff (ex_env det tariff now) = tariff"
  "bitcoinRate (ex_env det tariff now) = Some (Num 50000)"
  "smart_mode (ex_env det tariff now)"
  "threshold_of (ex_env det tariff now) = Num 0"
  "now_idle (ex_env det tariff now) = now"
  "now_bench (ex_env det tariff now) = now"
  "now_check (ex_env det tariff now) = now"
  "now_end (ex_env det tariff now) = now"
  by (simp_all add: ex_env_def threshold_of_def js_or_def)

lemma ex_state_fields:
  "lastSync (ex_state rolling st) = 1700000000000"
  "lastMined (ex_state rolling st) = 1700000000000"
  "benchmarkStart (ex_state rolling st) = 1699999000000"
  "rollingProfit (ex_state rolling st) = rolling"
  "store (ex_state rolling st) = st"
  "state_inv (ex_state rolling st)"
  by (simp_all add: ex_state_def state_inv_def)

lemma ex_env_min_fields:
  "details (ex_env_min thr det tariff now) = det"
  "power_tariff (ex_env_min thr det tariff now) = tariff"
  "bitcoinRate (ex_env_min thr det tariff now) = Some (Num 50000)"
  "smart_mode (ex_env_min thr det tariff now)"
  "min_profitability_setting (ex_env_min thr det tariff now) = Some thr"
  "now_idle (ex_env_min thr det tariff now) = now"
  "now_bench (ex_env_min thr det tariff now) = now"
  "now_check (ex_env_min thr det tariff now) = now"
  "now_end (ex_env_min thr det tariff now) = now"
  "now_mined (ex_env_min thr det tariff now) = now"
  by (simp_all add: ex_env_min_def ex_env_def)

lemma initial_state_fields:
  "lastSync initial_state = 0" "lastMined initial_state = 0"
  "benchmarkStart initial_state = 0" "rollingProfit initial_state = Num 0"
  "store initial_state = Map.empty"
  by (simp_all add: initial_state_def)

text \<open>
  The profit percentage of the example rig at a tariff of 0.125 per kWh: the cost is
  0.006 mBTC a day, computed in doubles, and the percentage is rounded to an integer.
\<close>

lemma pct_waiting:
  "current_profitPct (ex_env (Some det_waiting) (Num (1 / 8)) now) det_waiting = Num (- 100)"
  by (simp add: current_profitPct_def det_waiting_facts profitability_now_def profit_calc_def
      ex_env_fields js_gt_def js_sub_def dbl_eval)

lemma pct_unprofitable:
  "current_profitPct (ex_env (Some (det_mining (Num (1 / 1048576)))) (Num (1 / 8)) now)
     (det_mining (Num (1 / 1048576))) = Num (- 84)"
  by (simp add: current_profitPct_def det_mining_facts profitability_now_def profit_calc_def
      ex_env_fields js_gt_def js_sub_def dbl_eval)

lemma pct_profitable:
  "current_profitPct (ex_env (Some (det_mining (Num (1 / 8192)))) (Num (1 / 8)) now)
     (det_mining (Num (1 / 8192))) = Num 1935"
  by (simp add: current_profitPct_def det_mining_facts profitability_now_def profit_calc_def
      ex_env_fields js_gt_def js_sub_def dbl_eval)

text \<open>
  The quotient is a double before it is rounded to a percentage: with a profitability of
  0.00000444 BTC a day and a tariff of 0.1 the exact quotient is above -7.5 and the double
  quotient is below it, so the percentage is -8.
\<close>

lemma pct_double_quotient:
  "current_profitPct (ex_env (Some (det_mining (dbl 0.00000444))) (dbl 0.1) now)
     (det_mining (dbl 0.00000444)) = Num (- 8)"
  by (simp add: current_profitPct_def det_mining_facts profitability_now_def profit_calc_def
      ex_env_fields js_gt_def js_sub_def dbl_eval)

lemma pct_negative_tariff:
  "current_profitPct (ex_env (Some (det_mining prof)) (Num (- (1 / 2))) now) (det_mining prof)
     = Num 0"
  by (simp add: current_profitPct_def det_mining_facts profitability_now_def profit_calc_def
      ex_env_fields js_gt_def dbl_eval)

lemma pct_zero_tariff:
  "current_profitPct (ex_env (Some (det_mining prof)) (Num 0) now) (det_mining prof) = Num 0"
  by (simp add: current_profitPct_def det_mining_facts profitability_now_def profit_calc_def
      ex_env_fields Let_def)

text \<open>Single steps of the rolling average, in doubles.\<close>

lemma ema_examples:
  "ema (Num 1983) (Num 1983) = Num (8721326231519231 / 4398046511104)"
  "ema (Num 6) (Num (- 1)) = Num (5629499534213119 / 1125899906842624)"
  "ema (Num (- 50)) (Num (- 84)) = Num (- (7720456504063707 / 140737488355328))"
  "ema (Num (- 50)) (Num (- 100)) = Num (- (2010535547933257 / 35184372088832))"
  "ema (Num 1935) (Num 1935) = Num (8510219998986239 / 4398046511104)"
  by (simp_all add: ema_Num dbl_eval)


section \<open>The unit table\<close>

text \<open>The rows of the table that are divisions, and the row that leaves the reading as it is.\<close>

lemma normalize_mh_division:
  "normalize_mh r ''H'' = js_div r (Num 1000000)"
  "normalize_mh r ''kH'' = js_div r (Num 1000)"
  "normalize_mh r ''MH'' = r"
  by (simp_all add: normalize_mh_def)

text \<open>
  Claim C4: every row of the table applies exactly its multiplier, so that \<open>PH\<close> multiplies
  by 1,000,000,000 and \<open>TH\<close> by 1,000,000. The comments of the source say the same
  (\<open>Multiply by 1K\<close>, \<open>Multiply by 1M\<close>, \<open>Multiply by 1B\<close>, \<open>Multiply by 1T\<close>), but the
  statements divide by the decimal fractions 0.001, 0.000001, 0.000000001 and
  0.000000000001, none of which is a double. The examples of the claim come out right:
  1 GH is 1000 MH and 1 TH is 1,000,000 MH. A reading of 1 PH becomes
  \<open>8388607999999999 / 8388608\<close>, that is 999999999.9999999, where the multiplication
  gives 1000000000; a reading of 1.1 TH becomes \<open>4724464025600001 / 4294967296\<close>, that
  is 1100000.0000000002, where the multiplication gives 1100000.
\<close>

theorem normalize_mh_not_exact:
  "normalize_mh (Num 1) ''GH'' = Num 1000
   \<and> normalize_mh (Num 1) ''TH'' = Num 1000000
   \<and> normalize_mh (Num 1) ''PH'' = Num (8388607999999999 / 8388608)
   \<and> js_mul (Num 1) (Num 1000000000) = Num 1000000000
   \<and> normalize_mh (dbl 1.1) ''TH'' = Num (4724464025600001 / 4294967296)
   \<and> js_mul (dbl 1.1) (Num 1000000) = Num 1100000"
  by (simp add: normalize_mh_def dbl_eval)

section \<open>The stop decision\<close>

text \<open>
  Claim C2 as stated fails on a tick that waits for a job. The only device reports
  \<open>MINING\<close> but no speed, so the rig is mining with a hash rate of 0. The benchmark began
  more than seven minutes ago, autopilot is on, the rolling average is -50 before and after
  the tick, the profit of the tick is -100 and the threshold is 0: both readings are below
  the threshold, and no stop command is issued, because the source skips the assessment
  when the hash rate is 0.
\<close>

theorem steady_stop_counterexample:
  "mining_tick (ex_env (Some det_waiting) (Num (1 / 8)) 1700000060000) det_waiting
   \<and> benchmarkStart (ex_state (Num (- 50)) Map.empty) > 0
   \<and> now_check (ex_env (Some det_waiting) (Num (1 / 8)) 1700000060000)
        - benchmarkStart (ex_state (Num (- 50)) Map.empty) > 7 * 60000
   \<and> smart_mode (ex_env (Some det_waiting) (Num (1 / 8)) 1700000060000)
   \<and> rollingProfit (ex_state (Num (- 50)) Map.empty) = Num (- 50)
   \<and> rollingProfit (fst (syncRigDetails (ex_env (Some det_waiting) (Num (1 / 8)) 1700000060000)
        (ex_state (Num (- 50)) Map.empty))) = Num (- 50)
   \<and> current_profitPct (ex_env (Some det_waiting) (Num (1 / 8)) 1700000060000) det_waiting
        = Num (- 100)
   \<and> threshold_of (ex_env (Some det_waiting) (Num (1 / 8)) 1700000060000) = Num 0
   \<and> js_lt (Num (- 50)) (Num 0) \<and> js_lt (Num (- 100)) (Num 0)
   \<and> Stop \<notin> set (snd (syncRigDetails (ex_env (Some det_waiting) (Num (1 / 8)) 1700000060000)
        (ex_state (Num (- 50)) Map.empty)))"
  by (simp add: sync_cmds_mining [OF det_waiting_facts(1)]
        sync_rolling_mining [OF det_waiting_facts(1)] det_waiting_facts ex_env_fields
        ex_state_fields pct_waiting decision_reached_def)

text \<open>
  Claim C2, amended. On every tick on which the rig is mining with a non-zero aggregate hash
  rate, the benchmark began more than seven minutes before (\<open>benchmarkStart\<close> is set and
  \<open>now - benchmarkStart > 7 * 60000\<close>) and autopilot is enabled, the rolling average is
  updated and a stop command is issued on that tick if and only if both the rolling average
  (as updated on this tick) and the profit percentage of the tick are strictly below the
  minimum profitability; if only one of them is below, no stop command is issued. On every
  tick on which the rig is mining with an aggregate hash rate of 0 the assessment is
  skipped: no command is issued, and the rolling average, the start of the benchmark and
  the learned tariff limit are left as they were. The state is one the device can be in: a
  benchmark is only running when a previous \<open>lastSync\<close> exists (\<open>state_inv\<close>, which holds
  initially and is kept by every tick that ends at a positive clock reading).
\<close>

theorem steady_stop_iff:
  "(mining_tick e det \<and> truthy (hashrate (aggregate det)) \<and> state_inv s
      \<and> benchmarkStart s > 0 \<and> now_check e - benchmarkStart s > 7 * 60000 \<and> smart_mode e
     \<longrightarrow> rollingProfit (fst (syncRigDetails e s))
           = ema (rollingProfit s) (current_profitPct e det)
         \<and> (Stop \<in> set (snd (syncRigDetails e s))
              \<longleftrightarrow> js_lt (rollingProfit (fst (syncRigDetails e s))) (threshold_of e)
                 \<and> js_lt (current_profitPct e det) (threshold_of e)))
   \<and> (mining_tick e det \<and> \<not> truthy (hashrate (aggregate det))
     \<longrightarrow> snd (syncRigDetails e s) = []
         \<and> rollingProfit (fst (syncRigDetails e s)) = rollingProfit s
         \<and> benchmarkStart (fst (syncRigDetails e s)) = benchmarkStart s
         \<and> store (fst (syncRigDetails e s)) ''tariff_limit'' = store s ''tariff_limit'')"
proof -
  have steady: "rollingProfit (fst (syncRigDetails e s))
           = ema (rollingProfit s) (current_profitPct e det)
         \<and> (Stop \<in> set (snd (syncRigDetails e s))
              \<longleftrightarrow> js_lt (rollingProfit (fst (syncRigDetails e s))) (threshold_of e)
                 \<and> js_lt (current_profitPct e det) (threshold_of e))"
    if h: "mining_tick e det" "truthy (hashrate (aggregate det))" "state_inv s"
       "benchmarkStart s > 0" "now_check e - benchmarkStart s > 7 * 60000" "smart_mode e"
  proof -
    from h(3,4) have ls: "lastSync s > 0"
      by (simp add: state_inv_def)
    from h(4,5) have we: "window_elapsed e s"
      by (simp add: window_elapsed_def bench_next_def smartMagicNumber_def)
    from h(4) have rn: "roll_next s (current_profitPct e det)
        = ema (rollingProfit s) (current_profitPct e det)"
      by (simp add: roll_next_def)
    show ?thesis
      using h(1,2,6) ls we rn
      by (simp add: sync_cmds_mining sync_rolling_mining decision_reached_def
            stop_condition_def)
  qed
  have waiting: "snd (syncRigDetails e s) = []
         \<and> rollingProfit (fst (syncRigDetails e s)) = rollingProfit s
         \<and> benchmarkStart (fst (syncRigDetails e s)) = benchmarkStart s
         \<and> store (fst (syncRigDetails e s)) ''tariff_limit'' = store s ''tariff_limit''"
    if h: "mining_tick e det" "\<not> truthy (hashrate (aggregate det))"
  proof -
    from h(1) have d: "details e = Some det"
      by (simp add: mining_tick_def)
    from h(2) have nr: "\<not> decision_reached e det s"
      by (simp add: decision_reached_def)
    show ?thesis
      using h nr d
      by (simp add: sync_cmds_mining sync_rolling_mining sync_benchmarkStart_mining
            sync_tariff_limit)
  qed
  from steady waiting show ?thesis by blast
qed

theorem steady_stop_iff_witness:
  "mining_tick (ex_env (Some (det_mining (Num (1 / 1048576)))) (Num (1 / 8)) 1700000060000)
       (det_mining (Num (1 / 1048576)))
   \<and> truthy (hashrate (aggregate (det_mining (Num (1 / 1048576)))))
   \<and> state_inv (ex_state (Num (- 50)) Map.empty)
   \<and> benchmarkStart (ex_state (Num (- 50)) Map.empty) > 0
   \<and> now_check (ex_env (Some (det_mining (Num (1 / 1048576)))) (Num (1 / 8)) 1700000060000)
        - benchmarkStart (ex_state (Num (- 50)) Map.empty) > 7 * 60000
   \<and> smart_mode (ex_env (Some (det_mining (Num (1 / 1048576)))) (Num (1 / 8)) 1700000060000)
   \<and> rollingProfit (fst (syncRigDetails
        (ex_env (Some (det_mining (Num (1 / 1048576)))) (Num (1 / 8)) 1700000060000)
        (ex_state (Num (- 50)) Map.empty))) = Num (- (7720456504063707 / 140737488355328))
   \<and> Stop \<in> set (snd (syncRigDetails
        (ex_env (Some (det_mining (Num (1 / 1048576)))) (Num (1 / 8)) 1700000060000)
        (ex_state (Num (- 50)) Map.empty)))
   \<and> mining_tick (ex_env (Some det_waiting) (Num (1 / 8)) 1700000060000) det_waiting
   \<and> \<not> truthy (hashrate (aggregate det_waiting))
   \<and> snd (syncRigDetails (ex_env (Some det_waiting) (Num (1 / 8)) 1700000060000)
        (ex_state (Num (- 50)) Map.empty)) = []
   \<and> rollingProfit (fst (syncRigDetails (ex_env (Some det_waiting) (Num (1 / 8)) 1700000060000)
        (ex_state (Num (- 50)) Map.empty))) = Num (- 50)
   \<and> benchmarkStart (fst (syncRigDetails (ex_env (Some det_waiting) (Num (1 / 8)) 1700000060000)
        (ex_state (Num (- 50)) Map.empty))) = 1699999000000"
proof -
  let ?e = "ex_env (Some (det_mining (Num (1 / 1048576)))) (Num (1 / 8)) 1700000060000"
  let ?d = "det_mining (Num (1 / 1048576))"
  let ?w = "ex_env (Some det_waiting) (Num (1 / 8)) 1700000060000"
  let ?s = "ex_state (Num (- 50)) Map.empty"
  have h1: "mining_tick ?e ?d" by (rule det_mining_facts)
  have h2: "truthy (hashrate (aggregate ?d))" by (simp add: det_mining_facts)
  have h3: "state_inv ?s" by (rule ex_state_fields)
  have h4: "benchmarkStart ?s > 0" by (simp add: ex_state_fields)
  have h5: "now_check ?e - benchmarkStart ?s > 7 * 60000"
    by (simp add: ex_state_fields ex_env_fields)
  have h6: "smart_mode ?e" by (rule ex_env_fields)
  have w1: "mining_tick ?w det_waiting" by (rule det_waiting_facts)
  have w2: "\<not> truthy (hashrate (aggregate det_waiting))" by (simp add: det_waiting_facts)
  from steady_stop_iff [of ?e ?d ?s] h1 h2 h3 h4 h5 h6
  have a: "rollingProfit (fst (syncRigDetails ?e ?s))
             = Num (- (7720456504063707 / 140737488355328))"
    and b: "Stop \<in> set (snd (syncRigDetails ?e ?s))"
    by (simp_all add: pct_unprofitable ex_env_fields ex_state_fields ema_examples)
  from steady_stop_iff [of ?w det_waiting ?s] w1 w2
  have c: "snd (syncRigDetails ?w ?s) = []"
    and d: "rollingProfit (fst (syncRigDetails ?w ?s)) = Num (- 50)"
    and e: "benchmarkStart (fst (syncRigDetails ?w ?s)) = 1699999000000"
    by (simp_all add: ex_state_fields)
  from a b c d e h1 h2 h3 h4 h5 h6 w1 w2 show ?thesis by simp
qed


section \<open>The rolling average\<close>

lemma sync_lastSync_mining:
  "mining_tick e det \<Longrightarrow> lastSync (fst (syncRigDetails e s)) = now_end e"
  by (simp add: sync_mining_tick)

text \<open>
  Claim C3 as stated fails on two kinds of mining tick. On a tick that waits for a job the
  rig is mining (one device reports \<open>MINING\<close>), the benchmark is running, the rolling
  average is -50 and the profit of the tick is -100, but the hash rate is 0 and the rolling
  average stays at -50 instead of becoming the weighted mean of -50 and -100. On the first
  mining tick after the device was created (or after an idle tick) \<open>lastSync\<close> is 0: the
  rig mines at 50 MH with a profit of 1935 percent, and the rolling average is not set to
  1935 but stays 0, and no benchmark starts.
\<close>

theorem rolling_average_counterexample:
  "mining_tick (ex_env (Some det_waiting) (Num (1 / 8)) 1700000060000) det_waiting
   \<and> lastSync (ex_state (Num (- 50)) Map.empty) = 1700000000000
   \<and> benchmarkStart (ex_state (Num (- 50)) Map.empty) = 1699999000000
   \<and> rollingProfit (ex_state (Num (- 50)) Map.empty) = Num (- 50)
   \<and> current_profitPct (ex_env (Some det_waiting) (Num (1 / 8)) 1700000060000) det_waiting
        = Num (- 100)
   \<and> ema (Num (- 50)) (Num (- 100)) = Num (- (2010535547933257 / 35184372088832))
   \<and> rollingProfit (fst (syncRigDetails (ex_env (Some det_waiting) (Num (1 / 8)) 1700000060000)
        (ex_state (Num (- 50)) Map.empty))) = Num (- 50)
   \<and> mining_tick (ex_env (Some (det_mining (Num (1 / 8192)))) (Num (1 / 8)) 1700000060000)
        (det_mining (Num (1 / 8192)))
   \<and> hashrate (aggregate (det_mining (Num (1 / 8192)))) = Num 50
   \<and> benchmarkStart initial_state = 0
   \<and> current_profitPct (ex_env (Some (det_mining (Num (1 / 8192)))) (Num (1 / 8)) 1700000060000)
        (det_mining (Num (1 / 8192))) = Num 1935
   \<and> rollingProfit (fst (syncRigDetails
        (ex_env (Some (det_mining (Num (1 / 8192)))) (Num (1 / 8)) 1700000060000)
        initial_state)) = Num 0
   \<and> benchmarkStart (fst (syncRigDetails
        (ex_env (Some (det_mining (Num (1 / 8192)))) (Num (1 / 8)) 1700000060000)
        initial_state)) = 0"
  by (simp add: sync_rolling_mining [OF det_waiting_facts(1)]
        sync_rolling_mining [OF det_mining_facts(1)]
        sync_benchmarkStart_mining [OF det_mining_facts(1)]
        det_waiting_facts det_mining_facts ex_env_fields
        ex_state_fields initial_state_fields pct_waiting pct_profitable ema_examples)

text \<open>
  Claim C3, amended. The rolling average is an exponential moving average with smoothing
  constant 7 over the assessed ticks, that is the mining ticks that have a non-zero
  aggregate hash rate and find \<open>lastSync\<close> set (it is 0 when the device is created and
  after an idle tick, so a mining tick that directly follows either is not assessed). On the first
  assessed tick of a benchmark (\<open>benchmarkStart\<close> is not set) the benchmark starts and the
  average is set exactly to the profit percentage of the tick; on each later assessed tick
  the average becomes \<open>rollingProfit * (6/7) + profitPct * (1/7)\<close>, computed in doubles,
  and the start of the benchmark stays. On a mining tick that is not assessed (the hash
  rate is 0, or there is no previous \<open>lastSync\<close>) the average and the start of the
  benchmark are left as they were. Consequently a constant finite input \<open>p\<close> gives \<open>p\<close>
  exactly on the first assessed tick, and on every later tick the average is a number
  within the floating-point tolerance \<open>\<bar>p\<bar> / 2\<^sup>4\<^sup>8\<close> of \<open>p\<close> (for \<open>p = 0\<close> and for
  \<open>2\<^sup>-\<^sup>9\<^sup>0\<^sup>0 \<le> \<bar>p\<bar> \<le> 2\<^sup>9\<^sup>0\<^sup>0\<close>; a percentage is an integer, so this leaves out only
  magnitudes above \<open>2\<^sup>9\<^sup>0\<^sup>0\<close>).
\<close>

theorem rolling_average_ema:
  "(mining_tick e det \<and> truthy (hashrate (aggregate det)) \<and> lastSync s > 0
      \<and> benchmarkStart s = 0
      \<longrightarrow> rollingProfit (fst (syncRigDetails e s)) = current_profitPct e det
          \<and> benchmarkStart (fst (syncRigDetails e s)) = now_bench e)
   \<and> (mining_tick e det \<and> truthy (hashrate (aggregate det)) \<and> lastSync s > 0
      \<and> benchmarkStart s \<noteq> 0
      \<longrightarrow> rollingProfit (fst (syncRigDetails e s))
            = ema (rollingProfit s) (current_profitPct e det)
          \<and> benchmarkStart (fst (syncRigDetails e s)) = benchmarkStart s)
   \<and> (mining_tick e det \<and> (\<not> truthy (hashrate (aggregate det)) \<or> lastSync s \<le> 0)
      \<longrightarrow> rollingProfit (fst (syncRigDetails e s)) = rollingProfit s
          \<and> benchmarkStart (fst (syncRigDetails e s)) = benchmarkStart s)
   \<and> ema r c = js_add (js_mul r (js_div (Num 6) (Num 7))) (js_mul c (js_div (Num 1) (Num 7)))
   \<and> ema_run (Num p) [] = Num p
   \<and> (p = 0 \<or> (1 / 2 ^ 900 \<le> \<bar>p\<bar> \<and> \<bar>p\<bar> \<le> 2 ^ 900)
      \<longrightarrow> (\<exists>a. ema_run (Num p) (replicate n (Num p)) = Num a \<and> \<bar>a - p\<bar> \<le> \<bar>p\<bar> / 2 ^ 48))"
proof -
  have first: "rollingProfit (fst (syncRigDetails e s)) = current_profitPct e det
          \<and> benchmarkStart (fst (syncRigDetails e s)) = now_bench e"
    if "mining_tick e det" "truthy (hashrate (aggregate det))" "lastSync s > 0"
       "benchmarkStart s = 0"
    using that
    by (simp add: sync_rolling_mining sync_benchmarkStart_mining roll_next_def bench_next_def)
  have later: "rollingProfit (fst (syncRigDetails e s))
            = ema (rollingProfit s) (current_profitPct e det)
          \<and> benchmarkStart (fst (syncRigDetails e s)) = benchmarkStart s"
    if "mining_tick e det" "truthy (hashrate (aggregate det))" "lastSync s > 0"
       "benchmarkStart s \<noteq> 0"
    using that
    by (simp add: sync_rolling_mining sync_benchmarkStart_mining roll_next_def bench_next_def)
  have skipped: "rollingProfit (fst (syncRigDetails e s)) = rollingProfit s
          \<and> benchmarkStart (fst (syncRigDetails e s)) = benchmarkStart s"
    if "mining_tick e det" "\<not> truthy (hashrate (aggregate det)) \<or> lastSync s \<le> 0"
    using that
    by (auto simp: sync_rolling_mining sync_benchmarkStart_mining)
  have formula: "ema r c
      = js_add (js_mul r (js_div (Num 6) (Num 7))) (js_mul c (js_div (Num 1) (Num 7)))"
    by (simp add: ema_def smartMagicNumber_def)
  have seed: "ema_run (Num p) [] = Num p"
    by (simp add: ema_run_def)
  from first later skipped formula seed ema_run_tolerance [of p n] show ?thesis
    by blast
qed

theorem rolling_average_ema_witness:
  "mining_tick (ex_env (Some (det_mining (Num (1 / 8192)))) (Num (1 / 8)) 1700000060000)
       (det_mining (Num (1 / 8192)))
   \<and> truthy (hashrate (aggregate (det_mining (Num (1 / 8192)))))
   \<and> lastSync initial_state \<le> 0
   \<and> rollingProfit (run [ex_env (Some (det_mining (Num (1 / 8192)))) (Num (1 / 8)) 1700000060000]
        initial_state) = Num 0
   \<and> benchmarkStart (run [ex_env (Some (det_mining (Num (1 / 8192)))) (Num (1 / 8)) 1700000060000]
        initial_state) = 0
   \<and> lastSync (run [ex_env (Some (det_mining (Num (1 / 8192)))) (Num (1 / 8)) 1700000060000]
        initial_state) > 0
   \<and> rollingProfit (run [ex_env (Some (det_mining (Num (1 / 8192)))) (Num (1 / 8)) 1700000060000,
                          ex_env (Some (det_mining (Num (1 / 8192)))) (Num (1 / 8)) 1700000120000]
        initial_state) = Num 1935
   \<and> benchmarkStart (run [ex_env (Some (det_mining (Num (1 / 8192)))) (Num (1 / 8)) 1700000060000,
                          ex_env (Some (det_mining (Num (1 / 8192)))) (Num (1 / 8)) 1700000120000]
        initial_state) = 1700000120000
   \<and> rollingProfit (run [ex_env (Some (det_mining (Num (1 / 8192)))) (Num (1 / 8)) 1700000060000,
                          ex_env (Some (det_mining (Num (1 / 8192)))) (Num (1 / 8)) 1700000120000,
                          ex_env (Some (det_mining (Num (1 / 8192)))) (Num (1 / 8)) 1700000180000]
        initial_state) = Num (8510219998986239 / 4398046511104)
   \<and> benchmarkStart (run [ex_env (Some (det_mining (Num (1 / 8192)))) (Num (1 / 8)) 1700000060000,
                          ex_env (Some (det_mining (Num (1 / 8192)))) (Num (1 / 8)) 1700000120000,
                          ex_env (Some (det_mining (Num (1 / 8192)))) (Num (1 / 8)) 1700000180000]
        initial_state) = 1700000120000
   \<and> mining_tick (ex_env (Some det_waiting) (Num (1 / 8)) 1700000060000) det_waiting
   \<and> \<not> truthy (hashrate (aggregate det_waiting))
   \<and> rollingProfit (fst (syncRigDetails (ex_env (Some det_waiting) (Num (1 / 8)) 1700000060000)
        (ex_state (Num (- 50)) Map.empty))) = Num (- 50)
   \<and> 1 / 2 ^ 900 \<le> \<bar>1935 :: real\<bar> \<and> \<bar>1935 :: real\<bar> \<le> 2 ^ 900
   \<and> (\<exists>a. ema_run (Num 1935) (replicate 30 (Num 1935)) = Num a
          \<and> \<bar>a - 1935\<bar> \<le> \<bar>1935\<bar> / 2 ^ 48)
   \<and> ema_run (Num 1935) [] = Num 1935
   \<and> ema (Num 1935) (Num 1935) = Num (8510219998986239 / 4398046511104)"
proof -
  let ?d = "det_mining (Num (1 / 8192))"
  let ?e1 = "ex_env (Some ?d) (Num (1 / 8)) 1700000060000"
  let ?e2 = "ex_env (Some ?d) (Num (1 / 8)) 1700000120000"
  let ?e3 = "ex_env (Some ?d) (Num (1 / 8)) 1700000180000"
  let ?w = "ex_env (Some det_waiting) (Num (1 / 8)) 1700000060000"
  let ?s1 = "fst (syncRigDetails ?e1 initial_state)"
  let ?s2 = "fst (syncRigDetails ?e2 ?s1)"
  let ?s3 = "fst (syncRigDetails ?e3 ?s2)"
  have m: "mining_tick ?e1 ?d" "mining_tick ?e2 ?d" "mining_tick ?e3 ?d"
    by (rule det_mining_facts)+
  have h: "truthy (hashrate (aggregate ?d))" by (simp add: det_mining_facts)
  have w: "mining_tick ?w det_waiting" "\<not> truthy (hashrate (aggregate det_waiting))"
    by (simp_all add: det_waiting_facts)
  have l0: "lastSync initial_state \<le> 0" by (simp add: initial_state_fields)
  have l1: "lastSync ?s1 > 0" by (simp add: sync_lastSync_mining [OF m(1)] ex_env_fields)
  have l2: "lastSync ?s2 > 0" by (simp add: sync_lastSync_mining [OF m(2)] ex_env_fields)
  from rolling_average_ema [of ?e1 ?d initial_state] m(1) l0
  have s1: "rollingProfit ?s1 = Num 0" "benchmarkStart ?s1 = 0"
    by (simp_all add: initial_state_fields)
  from rolling_average_ema [of ?e2 ?d ?s1] m(2) h l1 s1(2)
  have s2: "rollingProfit ?s2 = Num 1935" "benchmarkStart ?s2 = 1700000120000"
    by (simp_all add: pct_profitable ex_env_fields)
  from rolling_average_ema [of ?e3 ?d ?s2] m(3) h l2 s2
  have s3: "rollingProfit ?s3 = Num (8510219998986239 / 4398046511104)"
    "benchmarkStart ?s3 = 1700000120000"
    by (simp_all add: pct_profitable ema_examples)
  from rolling_average_ema [of ?w det_waiting "ex_state (Num (- 50)) Map.empty"] w
  have s4: "rollingProfit (fst (syncRigDetails ?w (ex_state (Num (- 50)) Map.empty)))
              = Num (- 50)"
    by (simp add: ex_state_fields)
  have r: "1 / 2 ^ 900 \<le> \<bar>1935 :: real\<bar>" "\<bar>1935 :: real\<bar> \<le> 2 ^ 900"
    by simp_all
  from rolling_average_ema [where p = 1935 and n = 30] r
  have t: "\<exists>a. ema_run (Num 1935) (replicate 30 (Num 1935)) = Num a
          \<and> \<bar>a - 1935\<bar> \<le> \<bar>1935\<bar> / 2 ^ 48"
    and u: "ema_run (Num 1935) [] = Num 1935"
    by simp_all
  from m(1) h l0 l1 s1 s2 s3 w s4 r t u show ?thesis
    by (simp add: ema_examples)
qed


section \<open>The learned tariff limit\<close>

text \<open>
  The learned limit is the value stored under \<open>tariff_limit\<close>. On a tick that takes no
  stop decision, a stored limit other than 0 stays, or it is replaced by the current tariff,
  which is then strictly greater.
\<close>

lemma stored_limit_rises:
  assumes "details e = Some det" and "\<not> stop_decision e det s"
    and "store s ''tariff_limit'' = Some l" and "truthy l"
  shows "store (fst (syncRigDetails e s)) ''tariff_limit'' = Some l
    \<or> (js_lt l (power_tariff e)
        \<and> store (fst (syncRigDetails e s)) ''tariff_limit'' = Some (power_tariff e))"
  using assms
  by (auto simp: sync_tariff_limit tariff_limit_of_def js_or_def js_gt_def)

text \<open>A stop decision stores the current tariff, whatever the limit was.\<close>

lemma stop_sets_tariff_limit:
  assumes "details e = Some det" and "stop_decision e det s"
  shows "store (fst (syncRigDetails e s)) ''tariff_limit'' = Some (power_tariff e)"
  using assms by (simp add: sync_tariff_limit stop_decision_def)

text \<open>A tick that does not reach the decision leaves the stored limit as it is.\<close>

lemma stored_limit_kept:
  assumes "details e = Some det" and "\<not> decision_reached e det s"
  shows "store (fst (syncRigDetails e s)) ''tariff_limit'' = store s ''tariff_limit''"
  using assms by (simp add: sync_tariff_limit)

lemma stored_limit_kept_without_payload:
  "details e = None \<Longrightarrow>
   store (fst (syncRigDetails e s)) ''tariff_limit'' = store s ''tariff_limit''"
  by (simp add: sync_tariff_limit)

lemma window_elapsedI:
  "benchmarkStart s > 0 \<Longrightarrow> now_check e - benchmarkStart s > 420000 \<Longrightarrow> window_elapsed e s"
  by (simp add: window_elapsed_def bench_next_def smartMagicNumber_def)

text \<open>
  Claim C5: across every sequence of ticks the learned tariff limit never decreases except
  on a stop decision. The source says the same of the branch without a stop decision
  (\<open>update tariff limit if current tariff is higher\<close>), but it compares the tariff with
  \<open>getStoreValue('tariff_limit') || -1\<close>, which reads a stored limit of 0 as -1. The rig
  mines at 50 MH, its benchmark window has passed, the minimum profitability is 0 and no
  limit is stored. On a first tick the tariff is 0: no stop decision is taken and the limit
  0 is stored. On the next tick the tariff is -0.5 (a negative price): no stop decision is
  taken, the stored 0 is read as -1, the tariff is greater than that, and the stored limit
  drops from 0 to -0.5.
\<close>

theorem tariff_limit_drops:
  "store (ex_state (Num 0) Map.empty) ''tariff_limit'' = None
   \<and> \<not> stop_decision (ex_env (Some (det_mining (Num (1 / 8192)))) (Num 0) 1700000060000)
         (det_mining (Num (1 / 8192))) (ex_state (Num 0) Map.empty)
   \<and> store (run [ex_env (Some (det_mining (Num (1 / 8192)))) (Num 0) 1700000060000]
       (ex_state (Num 0) Map.empty)) ''tariff_limit'' = Some (Num 0)
   \<and> \<not> stop_decision
         (ex_env (Some (det_mining (Num (1 / 8192)))) (Num (- (1 / 2))) 1700000120000)
         (det_mining (Num (1 / 8192)))
         (run [ex_env (Some (det_mining (Num (1 / 8192)))) (Num 0) 1700000060000]
            (ex_state (Num 0) Map.empty))
   \<and> store (run [ex_env (Some (det_mining (Num (1 / 8192)))) (Num 0) 1700000060000,
                 ex_env (Some (det_mining (Num (1 / 8192)))) (Num (- (1 / 2))) 1700000120000]
       (ex_state (Num 0) Map.empty)) ''tariff_limit'' = Some (Num (- (1 / 2)))
   \<and> js_lt (Num (- (1 / 2))) (Num 0)"
proof -
  let ?d = "det_mining (Num (1 / 8192))"
  let ?ea = "ex_env (Some ?d) (Num 0) 1700000060000"
  let ?eb = "ex_env (Some ?d) (Num (- (1 / 2))) 1700000120000"
  let ?s0 = "ex_state (Num 0) Map.empty"
  let ?sa = "fst (syncRigDetails ?ea ?s0)"
  have ma: "mining_tick ?ea ?d" and mb: "mining_tick ?eb ?d"
    by (rule det_mining_facts)+
  have wa: "window_elapsed ?ea ?s0"
    by (rule window_elapsedI) (simp_all add: ex_state_fields ex_env_fields)
  have reached_a: "decision_reached ?ea ?d ?s0"
    by (simp add: decision_reached_def ma det_mining_facts ex_state_fields wa)
  have no_stop_a: "\<not> stop_decision ?ea ?d ?s0"
    by (simp add: stop_decision_def roll_next_def ex_state_fields pct_zero_tariff ema_0
          stop_condition_def ex_env_fields)
  have lim_a: "store ?sa ''tariff_limit'' = Some (Num 0)"
    by (simp add: sync_tariff_limit ex_env_fields reached_a tariff_limit_of_def ex_state_fields
          js_or_def js_gt_def)
  have sa: "lastSync ?sa = 1700000060000" "benchmarkStart ?sa = 1699999000000"
    "rollingProfit ?sa = Num 0"
    by (simp_all add: sync_lastSync_mining [OF ma] sync_benchmarkStart_mining [OF ma]
          sync_rolling_mining [OF ma] det_mining_facts ex_env_fields ex_state_fields
          roll_next_def bench_next_def pct_zero_tariff ema_0)
  have wb: "window_elapsed ?eb ?sa"
    by (rule window_elapsedI) (simp_all add: sa ex_env_fields)
  have reached_b: "decision_reached ?eb ?d ?sa"
    by (simp add: decision_reached_def mb det_mining_facts sa wb)
  have no_stop_b: "\<not> stop_decision ?eb ?d ?sa"
    by (simp add: stop_decision_def roll_next_def sa pct_negative_tariff ema_0
          stop_condition_def ex_env_fields)
  have lim_b: "store (fst (syncRigDetails ?eb ?sa)) ''tariff_limit'' = Some (Num (- (1 / 2)))"
    by (simp add: sync_tariff_limit [of ?eb ?sa] ex_env_fields reached_b no_stop_b
          tariff_limit_of_def lim_a js_or_def js_gt_def)
  show ?thesis
    using no_stop_a no_stop_b by (simp add: lim_a lim_b ex_state_fields)
qed

section \<open>The autopilot start\<close>

lemma det_idle_tick: "idle_tick (ex_env (Some det_idle) tariff now) det_idle"
  by (simp add: idle_tick_def det_idle_facts ex_env_fields)

lemma det_mining_tick_min:
  "mining_tick (ex_env_min thr (Some (det_mining prof)) tariff now) (det_mining prof)"
  using det_mining_facts(1) [of prof tariff now]
  by (simp add: mining_tick_def ex_env_min_fields ex_env_fields)

lemma det_idle_tick_min: "idle_tick (ex_env_min thr (Some det_idle) tariff now) det_idle"
  by (simp add: idle_tick_def det_idle_facts ex_env_min_fields)

lemma pct_zero_tariff_min:
  "current_profitPct (ex_env_min thr (Some (det_mining prof)) (Num 0) now) (det_mining prof)
     = Num 0"
  by (simp add: current_profitPct_def profit_calc_def ex_env_min_fields)

lemma assess_lastMined: "lastMined (fst (assess e lmt thr pct s)) = lastMined s"
  by (simp add: assess_def Let_def)

lemma sync_lastMined_mining:
  "mining_tick e det \<Longrightarrow> lastMined (fst (syncRigDetails e s)) = now_mined e"
  by (simp add: sync_mining_tick tick_mining_def Let_def assess_lastMined)

text \<open>
  On an idle tick the start command is issued exactly when autopilot is enabled and the
  limit reads -1, or the tariff is below the limit read, or \<open>lastMined\<close> is 0, or the rig
  has not mined for more than seven hours. The limit is read with \<open>|| -1\<close>: it reads -1
  when nothing is stored and also when 0 is stored. A timeout always brings the start.
\<close>

lemma sync_start_iff:
  assumes "idle_tick e det"
  shows "Start \<in> set (snd (syncRigDetails e s))
         \<longleftrightarrow> smart_mode e
             \<and> (tariff_limit_of (store s) = Num (- 1)
                  \<or> js_lt (power_tariff e) (tariff_limit_of (store s))
                  \<or> lastMined s = 0
                  \<or> timeout_elapsed (now_idle e) (lastMined s))"
  by (auto simp: sync_cmds_idle [OF assms] start_condition_def timeout_elapsed_def js_eq_def
        js_gt_def smartMagicNumber_def)

lemma sync_start_timeout:
  assumes "idle_tick e det" and "smart_mode e"
    and "timeout_elapsed (now_idle e) (lastMined s)"
  shows "snd (syncRigDetails e s) = [Start]"
  using assms(2,3)
  by (auto simp: sync_cmds_idle [OF assms(1)] start_condition_def timeout_elapsed_def
        smartMagicNumber_def)

text \<open>
  Claim C6: on an idle tick a start command is issued exactly when autopilot is enabled and
  no tariff limit is learned, or the tariff is below the learned limit, or the rig has not
  mined for seven hours. The source says the same where it learns the limit (\<open>Rig won't
  restart until tariff drops below this limit\<close>) and where it starts the rig, but it reads
  the limit with \<open>getStoreValue('tariff_limit') || -1\<close>, and a learned limit of 0 reads as
  -1, the value for no limit. The rig mines at 50 MH, its benchmark window has passed and
  the minimum profitability is 5. On a first tick the tariff is 0, so the profit
  percentage is 0: the stop decision is taken, the limit 0 is stored and the rig is
  stopped. One minute later the rig is idle and the tariff is 0.25: a limit is learned, the
  tariff is not below it and the rig mined a minute ago, and the start command is issued.
\<close>

theorem start_above_learned_limit:
  "stop_decision (ex_env_min (Num 5) (Some (det_mining (Num (1 / 8192)))) (Num 0) 1700000060000)
       (det_mining (Num (1 / 8192))) (ex_state (Num 0) Map.empty)
   \<and> snd (syncRigDetails
        (ex_env_min (Num 5) (Some (det_mining (Num (1 / 8192)))) (Num 0) 1700000060000)
        (ex_state (Num 0) Map.empty)) = [Stop]
   \<and> store (run [ex_env_min (Num 5) (Some (det_mining (Num (1 / 8192)))) (Num 0) 1700000060000]
        (ex_state (Num 0) Map.empty)) ''tariff_limit'' = Some (Num 0)
   \<and> lastMined (run [ex_env_min (Num 5) (Some (det_mining (Num (1 / 8192)))) (Num 0) 1700000060000]
        (ex_state (Num 0) Map.empty)) = 1700000060000
   \<and> idle_tick (ex_env_min (Num 5) (Some det_idle) (Num (1 / 4)) 1700000120000) det_idle
   \<and> smart_mode (ex_env_min (Num 5) (Some det_idle) (Num (1 / 4)) 1700000120000)
   \<and> power_tariff (ex_env_min (Num 5) (Some det_idle) (Num (1 / 4)) 1700000120000)
        = Num (1 / 4)
   \<and> \<not> js_lt (Num (1 / 4)) (Num 0)
   \<and> \<not> timeout_elapsed (now_idle (ex_env_min (Num 5) (Some det_idle) (Num (1 / 4)) 1700000120000))
         1700000060000
   \<and> snd (syncRigDetails (ex_env_min (Num 5) (Some det_idle) (Num (1 / 4)) 1700000120000)
        (run [ex_env_min (Num 5) (Some (det_mining (Num (1 / 8192)))) (Num 0) 1700000060000]
           (ex_state (Num 0) Map.empty))) = [Start]"
proof -
  let ?d = "det_mining (Num (1 / 8192))"
  let ?ea = "ex_env_min (Num 5) (Some ?d) (Num 0) 1700000060000"
  let ?eb = "ex_env_min (Num 5) (Some det_idle) (Num (1 / 4)) 1700000120000"
  let ?s0 = "ex_state (Num 0) Map.empty"
  let ?sa = "fst (syncRigDetails ?ea ?s0)"
  have ma: "mining_tick ?ea ?d" by (rule det_mining_tick_min)
  have ib: "idle_tick ?eb det_idle" by (rule det_idle_tick_min)
  have thr: "threshold_of ?ea = Num 5"
    by (simp add: threshold_of_def ex_env_min_fields js_or_def)
  have wa: "window_elapsed ?ea ?s0"
    by (rule window_elapsedI) (simp_all add: ex_state_fields ex_env_min_fields)
  have reached: "decision_reached ?ea ?d ?s0"
    by (simp add: decision_reached_def ma det_mining_facts ex_state_fields wa)
  have stop: "stop_decision ?ea ?d ?s0"
    by (simp add: stop_decision_def reached roll_next_def ex_state_fields pct_zero_tariff_min
          ema_0 stop_condition_def thr)
  have cmd: "snd (syncRigDetails ?ea ?s0) = [Stop]"
    using stop reached
    by (simp add: sync_cmds_mining [OF ma] stop_decision_def ex_env_min_fields)
  have lmt: "store ?sa ''tariff_limit'' = Some (Num 0)"
    using stop_sets_tariff_limit [OF _ stop] by (simp add: ex_env_min_fields)
  have lm: "lastMined ?sa = 1700000060000"
    by (simp add: sync_lastMined_mining [OF ma] ex_env_min_fields)
  have start: "snd (syncRigDetails ?eb ?sa) = [Start]"
    by (simp add: sync_cmds_idle [OF ib] start_condition_def tariff_limit_of_def lmt js_or_def
          js_eq_def ex_env_min_fields)
  show ?thesis
    using stop cmd lmt lm ib start
    by (simp add: ex_env_min_fields timeout_elapsed_def)
qed


section \<open>Which devices count\<close>

lemma legacy_step_fields:
  "powerUsage (legacy_step d t) =
     (if reports d then js_add (powerUsage t) (dev_powerUsage d) else powerUsage t)"
  "temperature (legacy_step d t) =
     (if reports d then js_max (temperature t) (dev_temperature d) else temperature t)"
  "load (legacy_step d t) = (if reports d then js_add (load t) (dev_load d) else load t)"
  "hashrate (legacy_step d t) =
     (if is_mining d then fold speed_step (dev_speeds d) (hashrate t) else hashrate t)"
  "mining (legacy_step d t) = (if is_mining d then mining t + 1 else mining t)"
  by (auto simp: legacy_step_def reports_def is_mining_def Let_def)

lemma fold_legacy_powerUsage:
  "powerUsage (fold legacy_step ds t) =
     fold (\<lambda>d p. js_add p (dev_powerUsage d)) (filter reports ds) (powerUsage t)"
  by (induction ds arbitrary: t) (simp_all add: legacy_step_fields)

lemma fold_legacy_temperature:
  "temperature (fold legacy_step ds t) =
     fold (\<lambda>d m. js_max m (dev_temperature d)) (filter reports ds) (temperature t)"
  by (induction ds arbitrary: t) (simp_all add: legacy_step_fields)

lemma fold_legacy_load:
  "load (fold legacy_step ds t) =
     fold (\<lambda>d l. js_add l (dev_load d)) (filter reports ds) (load t)"
  by (induction ds arbitrary: t) (simp_all add: legacy_step_fields)

lemma fold_legacy_hashrate:
  "hashrate (fold legacy_step ds t) =
     fold (\<lambda>d h. fold speed_step (dev_speeds d) h) (filter is_mining ds) (hashrate t)"
  by (induction ds arbitrary: t) (simp_all add: legacy_step_fields)

lemma fold_legacy_mining:
  "mining (fold legacy_step ds t) = mining t + length (filter is_mining ds)"
  by (induction ds arbitrary: t) (simp_all add: legacy_step_fields)

lemma fold_odv_fields:
  "powerUsage (fold odv_step kvs t) =
     fold (\<lambda>kv p. if fst kv = ''Power usage'' then js_add p (snd kv) else p) kvs (powerUsage t)"
  "temperature (fold odv_step kvs t) =
     fold (\<lambda>kv m. if fst kv = ''Temperature'' then js_max m (snd kv) else m) kvs
       (temperature t)"
  "load (fold odv_step kvs t) =
     fold (\<lambda>kv l. if fst kv = ''Load'' then js_add l (snd kv) else l) kvs (load t)"
  "hashrate (fold odv_step kvs t) = hashrate t"
  "mining (fold odv_step kvs t) = mining t"
  by (induction kvs arbitrary: t; simp add: odv_step_def Let_def)+

lemma fold_v4_speed_fields:
  "hashrate (fold v4_speed_step sps t) =
     fold (\<lambda>a h. js_add h (js_div (v4_speed a) (Num 1000000))) sps (hashrate t)"
  "mining (fold v4_speed_step sps t) = mining t + length (filter positive_speed sps)"
  "powerUsage (fold v4_speed_step sps t) = powerUsage t"
  "temperature (fold v4_speed_step sps t) = temperature t"
  "load (fold v4_speed_step sps t) = load t"
  by (induction sps arbitrary: t; simp add: v4_speed_step_def positive_speed_def Let_def)+

lemma v4_step_fold:
  "v4_step d t = fold odv_step (odv d) (fold v4_speed_step (algorithmsSpeed_of d) t)"
  by (simp add: v4_step_def algorithmsSpeed_of_def split: option.splits)

text \<open>
  Claim C7 as stated fails in three ways. A legacy device whose status is \<open>MINING\<close> and
  that reports no speed is counted as mining although the hash rate stays 0. The status of
  a v4 device is never read: the only v4 device of a rig is reported as \<open>DISABLED\<close>, and
  its power, temperature and load readings enter the aggregates. A single v4 device with
  two positive algorithm speeds raises the count by two.
\<close>

theorem device_contributions_counterexample:
  "devices det_waiting = Some [ex_device ''MINING'' []]
   \<and> dev_status (ex_device ''MINING'' []) = ''MINING''
   \<and> dev_speeds (ex_device ''MINING'' []) = []
   \<and> mining (aggregate det_waiting) = 1
   \<and> hashrate (aggregate det_waiting) = Num 0
   \<and> devices det_v4_disabled = None
   \<and> map v4_status (case v4_devices det_v4_disabled of None \<Rightarrow> [] | Some ds \<Rightarrow> ds)
        = [''DISABLED'']
   \<and> powerUsage (aggregate det_v4_disabled) = Num 15
   \<and> temperature (aggregate det_v4_disabled) = Num 40
   \<and> load (aggregate det_v4_disabled) = Num 3
   \<and> devices det_v4 = None
   \<and> length (case v4_devices det_v4 of None \<Rightarrow> [] | Some ds \<Rightarrow> ds) = 1
   \<and> mining (aggregate det_v4) = 2"
proof -
  have w: "devices det_waiting = Some [ex_device ''MINING'' []]"
    "dev_status (ex_device ''MINING'' []) = ''MINING''"
    "dev_speeds (ex_device ''MINING'' []) = []"
    by (simp_all add: det_waiting_def ex_details_def ex_device_def)
  have d: "devices det_v4_disabled = None"
    "map v4_status (case v4_devices det_v4_disabled of None \<Rightarrow> [] | Some ds \<Rightarrow> ds)
        = [''DISABLED'']"
    "powerUsage (aggregate det_v4_disabled) = Num 15"
    "temperature (aggregate det_v4_disabled) = Num 40"
    "load (aggregate det_v4_disabled) = Num 3"
    by (simp_all add: det_v4_disabled_def aggregate_def totals0_def v4_step_def odv_step_def
          js_max_def dbl_eval)
  have v: "devices det_v4 = None"
    "length (case v4_devices det_v4 of None \<Rightarrow> [] | Some ds \<Rightarrow> ds) = 1"
    "mining (aggregate det_v4) = 2"
    by (simp_all add: det_v4_def aggregate_def totals0_def v4_step_def v4_speed_step_def
          odv_step_def js_gt_def dbl_eval)
  from w d v show ?thesis
    by (simp add: det_waiting_facts)
qed

text \<open>
  Claim C7, amended. A legacy device contributes its power, temperature and load readings
  to the aggregates exactly when its status is neither \<open>DISABLED\<close> nor \<open>OFFLINE\<close>, and
  it contributes its speeds to the hash rate and one to the count of mining devices
  exactly when its status is \<open>MINING\<close>, whether or not it reports a positive speed. A v4
  device is not filtered by status: its power, temperature and load readings and its
  algorithm speeds are always taken, and it adds to the count of mining devices one for
  each of its algorithm speeds that is positive, so it contributes to the count exactly
  when at least one of them is. The aggregates of a payload are those of its legacy
  devices, followed by those of its v4 devices when the payload has v4 rigs.
\<close>

theorem device_contributions:
  "powerUsage (fold legacy_step ds t) =
     fold (\<lambda>d p. js_add p (dev_powerUsage d)) (filter reports ds) (powerUsage t)
   \<and> temperature (fold legacy_step ds t) =
       fold (\<lambda>d m. js_max m (dev_temperature d)) (filter reports ds) (temperature t)
   \<and> load (fold legacy_step ds t) =
       fold (\<lambda>d l. js_add l (dev_load d)) (filter reports ds) (load t)
   \<and> hashrate (fold legacy_step ds t) =
       fold (\<lambda>d h. fold speed_step (dev_speeds d) h) (filter is_mining ds) (hashrate t)
   \<and> mining (fold legacy_step ds t) = mining t + length (filter is_mining ds)
   \<and> reports d = (dev_status d \<noteq> ''DISABLED'' \<and> dev_status d \<noteq> ''OFFLINE'')
   \<and> is_mining d = (dev_status d = ''MINING'')
   \<and> speed_step sp h = js_add h (normalize_mh (speed sp) (displaySuffix sp))
   \<and> powerUsage (v4_step v t) =
       fold (\<lambda>kv p. if fst kv = ''Power usage'' then js_add p (snd kv) else p) (odv v)
         (powerUsage t)
   \<and> temperature (v4_step v t) =
       fold (\<lambda>kv m. if fst kv = ''Temperature'' then js_max m (snd kv) else m) (odv v)
         (temperature t)
   \<and> load (v4_step v t) =
       fold (\<lambda>kv l. if fst kv = ''Load'' then js_add l (snd kv) else l) (odv v) (load t)
   \<and> hashrate (v4_step v t) =
       fold (\<lambda>a h. js_add h (js_div (v4_speed a) (Num 1000000))) (algorithmsSpeed_of v)
         (hashrate t)
   \<and> mining (v4_step v t) = mining t + length (filter positive_speed (algorithmsSpeed_of v))
   \<and> (mining t < mining (v4_step v t)) = (\<exists>a \<in> set (algorithmsSpeed_of v). positive_speed a)
   \<and> positive_speed a = js_lt (Num 0) (js_div (v4_speed a) (Num 1000000))
   \<and> v4_step (v\<lparr>v4_status := st\<rparr>) t = v4_step v t
   \<and> aggregate \<lparr>rig_type = ty, devices = Some ds, hasV4Rigs = False, v4_devices = vo,
         profitability = pr\<rparr> = fold legacy_step ds totals0
   \<and> aggregate \<lparr>rig_type = ty, devices = Some ds, hasV4Rigs = True, v4_devices = Some vs,
         profitability = pr\<rparr> = fold v4_step vs (fold legacy_step ds totals0)
   \<and> aggregate \<lparr>rig_type = ty, devices = None, hasV4Rigs = True, v4_devices = Some vs,
         profitability = pr\<rparr> = fold v4_step vs totals0"
proof -
  have count: "(mining t < mining (v4_step v t))
      = (\<exists>a \<in> set (algorithmsSpeed_of v). positive_speed a)"
    by (simp add: v4_step_fold fold_odv_fields fold_v4_speed_fields length_greater_0_conv
          filter_empty_conv)
  have status: "v4_step (v\<lparr>v4_status := st\<rparr>) t = v4_step v t"
    by (simp add: v4_step_def)
  have agg: "aggregate \<lparr>rig_type = ty, devices = Some ds, hasV4Rigs = False, v4_devices = vo,
         profitability = pr\<rparr> = fold legacy_step ds totals0"
    "aggregate \<lparr>rig_type = ty, devices = Some ds, hasV4Rigs = True, v4_devices = Some vs,
         profitability = pr\<rparr> = fold v4_step vs (fold legacy_step ds totals0)"
    "aggregate \<lparr>rig_type = ty, devices = None, hasV4Rigs = True, v4_devices = Some vs,
         profitability = pr\<rparr> = fold v4_step vs totals0"
    by (simp_all add: aggregate_def)
  show ?thesis
    unfolding count status agg
    by (simp add: fold_legacy_powerUsage fold_legacy_temperature fold_legacy_load
          fold_legacy_hashrate fold_legacy_mining v4_step_fold fold_odv_fields
          fold_v4_speed_fields reports_def is_mining_def speed_step_def positive_speed_def
          js_gt_def)
qed

section \<open>The time of the last sync\<close>

text \<open>
  Claim C9 as stated fails on two kinds of tick. A tick that aborts because the rig is
  unmanaged leaves \<open>lastSync\<close> as it was (here 1700000000000, while the tick ends at
  1700000060000), and a tick that finds the rig idle sets \<open>lastSync\<close> to 0.
\<close>

theorem lastSync_counterexample:
  "not_managed det_unmanaged
   \<and> lastSync (ex_state (Num 0) Map.empty) = 1700000000000
   \<and> lastSync (fst (syncRigDetails (ex_env (Some det_unmanaged) (Num (1 / 10)) 1700000060000)
                      (ex_state (Num 0) Map.empty))) = 1700000000000
   \<and> now_end (ex_env (Some det_unmanaged) (Num (1 / 10)) 1700000060000) = 1700000060000
   \<and> idle_tick (ex_env (Some det_idle) (Num (1 / 10)) 1700000060000) det_idle
   \<and> lastSync (fst (syncRigDetails (ex_env (Some det_idle) (Num (1 / 10)) 1700000060000)
                      (ex_state (Num 0) Map.empty))) = 0
   \<and> now_end (ex_env (Some det_idle) (Num (1 / 10)) 1700000060000) = 1700000060000"
  by (simp add: sync_lastSync det_idle_facts det_unmanaged_facts ex_env_fields ex_state_fields
        det_idle_tick)

text \<open>
  Claim C9, amended. After a tick that fetched nothing or that aborts because the rig type
  is missing or \<open>UNMANAGED\<close>, \<open>lastSync\<close> is unchanged; after a tick that finds the rig
  idle (the device lists were aggregated and no device is mining) it is 0; after every
  other tick of a managed rig, whether the rig is mining or the payload has no device
  lists, it is the clock reading at the end of the tick.
\<close>

theorem lastSync_after_tick:
  "lastSync (fst (syncRigDetails e s)) =
     (case details e of
        None \<Rightarrow> lastSync s
      | Some det \<Rightarrow>
          if not_managed det then lastSync s
          else if has_device_lists det \<and> mining (aggregate det) = 0 then 0
          else now_end e)"
  by (rule sync_lastSync)

section \<open>The dashboard\<close>

lemma metrics_of_sum:
  "metrics_of absent rigs ''measure_profit'' = Some (metric_sum absent rigs ''measure_profit'')"
  "metrics_of absent rigs ''measure_cost'' = Some (metric_sum absent rigs ''measure_cost'')"
  by (simp_all add: metrics_of_def dashboard_metrics_def)

lemma fleet_formula:
  "fleet_profit_percent absent rigs =
     js_round (js_mul (js_div (js_sub (summed_revenue absent rigs) (summed_cost absent rigs))
                              (summed_cost absent rigs)) (Num 100))"
  by (simp add: fleet_profit_percent_def summed_revenue_def summed_cost_def metrics_of_sum
        Let_def)

lemma metric_sum_snoc:
  "metric_sum absent (rigs @ [rig]) m =
     js_add (metric_sum absent rigs m) (getStoreValue absent rig m)"
  by (simp add: metric_sum_def)

text \<open>When every rig has stored a cost of 0, as an idle rig does, the summed cost is 0.\<close>

lemma metric_sum_zero:
  "\<forall>rig \<in> set rigs. rig m = Some (Num 0) \<Longrightarrow> metric_sum absent rigs m = Num 0"
proof (induction rigs rule: rev_induct)
  case Nil
  show ?case by (simp add: metric_sum_def)
next
  case (snoc rig rigs)
  then show ?case
    by (simp add: metric_sum_snoc getStoreValue_def dbl_0)
qed

text \<open>The quotient by a cost of 0: the sign of the profit decides.\<close>

lemma percent_of_zero_cost:
  "js_round (js_mul (js_div a (Num 0)) (Num 100)) =
     (if js_lt (Num 0) a then PInf else if js_lt a (Num 0) then NInf else NaN)"
  by (cases a) (simp_all add: js_signed_inf_def)

lemma not_finite_cases: "is_finite (if b then PInf else if c then NInf else NaN) = False"
  by (simp add: is_finite_def)

text \<open>
  Claim C10. \<open>gatherDetails\<close> computes the fleet-wide net profitability as
  \<open>round((revenue - cost) / cost * 100)\<close>, where the revenue and the cost are the sums of
  the stored \<open>measure_profit\<close> and \<open>measure_cost\<close> over the rigs (each sum starts at 0 and
  adds the stored value of one rig after the other, and is read with \<open>|| 0\<close>), and writes
  the value to the capability \<open>measure_profit_percent\<close>; the cost is not tested. Whenever
  the summed cost is zero, the value is not finite: it is \<open>Infinity\<close> when the profit
  \<open>revenue - cost\<close> is positive, \<open>-Infinity\<close> when it is negative and \<open>NaN\<close> otherwise, in
  particular for a revenue of 0. The per-rig computation is guarded: it yields a percentage
  other than the initial 0 only when the cost is greater than 0.
\<close>

theorem fleet_percent_division_by_zero:
  "fleet_profit_percent absent rigDevices =
     js_round (js_mul (js_div (js_sub (summed_revenue absent rigDevices)
                                      (summed_cost absent rigDevices))
                              (summed_cost absent rigDevices)) (Num 100))
   \<and> summed_revenue absent rigDevices =
       js_or (Some (metric_sum absent rigDevices ''measure_profit'')) (Num 0)
   \<and> summed_cost absent rigDevices =
       js_or (Some (metric_sum absent rigDevices ''measure_cost'')) (Num 0)
   \<and> metric_sum absent [] m = Num 0
   \<and> metric_sum absent (rigs @ [rig]) m =
       js_add (metric_sum absent rigs m) (getStoreValue absent rig m)
   \<and> gatherDetails absent (Some rigDevices) caps ''measure_profit_percent''
        = Some (fleet_profit_percent absent rigDevices)
   \<and> (summed_cost absent rigDevices = Num 0
       \<longrightarrow> \<not> is_finite (fleet_profit_percent absent rigDevices)
           \<and> fleet_profit_percent absent rigDevices =
               (if js_lt (Num 0) (js_sub (summed_revenue absent rigDevices) (Num 0)) then PInf
                else if js_lt (js_sub (summed_revenue absent rigDevices) (Num 0)) (Num 0)
                then NInf else NaN)
           \<and> (summed_revenue absent rigDevices = Num 0
                \<longrightarrow> fleet_profit_percent absent rigDevices = NaN))
   \<and> (js_gt (costPerDayMBTC (profit_calc tariff rate n u prof st)) (Num 0)
        \<or> profitPct (profit_calc tariff rate n u prof st) = Num 0)"
proof -
  have zero: "fleet_profit_percent absent rigDevices =
               (if js_lt (Num 0) (js_sub (summed_revenue absent rigDevices) (Num 0)) then PInf
                else if js_lt (js_sub (summed_revenue absent rigDevices) (Num 0)) (Num 0)
                then NInf else NaN)"
    if "summed_cost absent rigDevices = Num 0"
    using that by (simp only: fleet_formula percent_of_zero_cost)
  have nan: "fleet_profit_percent absent rigDevices = NaN"
    if "summed_cost absent rigDevices = Num 0" "summed_revenue absent rigDevices = Num 0"
    using that by (simp add: zero js_sub_def dbl_0)
  have inf: "\<not> is_finite (fleet_profit_percent absent rigDevices)"
    if "summed_cost absent rigDevices = Num 0"
    using that by (simp only: zero not_finite_cases) simp
  have sums: "metric_sum absent [] m = Num 0"
    by (simp add: metric_sum_def)
  have written: "gatherDetails absent (Some rigDevices) caps ''measure_profit_percent''
        = Some (fleet_profit_percent absent rigDevices)"
    by (simp add: gatherDetails_def)
  have rev: "summed_revenue absent rigDevices =
       js_or (Some (metric_sum absent rigDevices ''measure_profit'')) (Num 0)"
    by (simp add: summed_revenue_def)
  have cst: "summed_cost absent rigDevices =
       js_or (Some (metric_sum absent rigDevices ''measure_cost'')) (Num 0)"
    by (simp add: summed_cost_def)
  have guard: "js_gt (costPerDayMBTC (profit_calc tariff rate n u prof st)) (Num 0)
        \<or> profitPct (profit_calc tariff rate n u prof st) = Num 0"
    using profit_calc_guard [of tariff rate n u prof st] by blast
  from fleet_formula [of absent rigDevices] rev cst sums metric_sum_snoc [of absent rigs rig m]
    written zero nan inf guard
  show ?thesis by blast
qed

theorem fleet_percent_division_by_zero_witness:
  "summed_cost NaN [[''measure_profit'' \<mapsto> Num 0, ''measure_cost'' \<mapsto> Num 0]] = Num 0
   \<and> summed_revenue NaN [[''measure_profit'' \<mapsto> Num 0, ''measure_cost'' \<mapsto> Num 0]] = Num 0
   \<and> fleet_profit_percent NaN [[''measure_profit'' \<mapsto> Num 0, ''measure_cost'' \<mapsto> Num 0]] = NaN
   \<and> gatherDetails NaN (Some [[''measure_profit'' \<mapsto> Num 0, ''measure_cost'' \<mapsto> Num 0]])
        Map.empty ''measure_profit_percent'' = Some NaN
   \<and> summed_cost NaN [[''measure_profit'' \<mapsto> Num 2, ''measure_cost'' \<mapsto> Num 0]] = Num 0
   \<and> summed_revenue NaN [[''measure_profit'' \<mapsto> Num 2, ''measure_cost'' \<mapsto> Num 0]] = Num 2
   \<and> fleet_profit_percent NaN [[''measure_profit'' \<mapsto> Num 2, ''measure_cost'' \<mapsto> Num 0]] = PInf
   \<and> \<not> is_finite
         (fleet_profit_percent NaN [[''measure_profit'' \<mapsto> Num 2, ''measure_cost'' \<mapsto> Num 0]])
   \<and> gatherDetails NaN (Some [[''measure_profit'' \<mapsto> Num 2, ''measure_cost'' \<mapsto> Num 0]])
        Map.empty ''measure_profit_percent'' = Some PInf
   \<and> fleet_profit_percent NaN [[''measure_profit'' \<mapsto> Num 3, ''measure_cost'' \<mapsto> Num 2]]
        = Num 50"
proof -
  let ?a = "[[''measure_profit'' \<mapsto> Num 0, ''measure_cost'' \<mapsto> Num (0 :: real)]]"
  let ?b = "[[''measure_profit'' \<mapsto> Num 2, ''measure_cost'' \<mapsto> Num (0 :: real)]]"
  let ?c = "[[''measure_profit'' \<mapsto> Num 3, ''measure_cost'' \<mapsto> Num (2 :: real)]]"
  have a: "summed_cost NaN ?a = Num 0" "summed_revenue NaN ?a = Num 0"
    by (simp_all add: summed_cost_def summed_revenue_def metric_sum_def getStoreValue_def
          js_or_def dbl_0)
  have b: "summed_cost NaN ?b = Num 0" "summed_revenue NaN ?b = Num 2"
    by (simp_all add: summed_cost_def summed_revenue_def metric_sum_def getStoreValue_def
          js_or_def dbl_eval)
  have c: "summed_cost NaN ?c = Num 2" "summed_revenue NaN ?c = Num 3"
    by (simp_all add: summed_cost_def summed_revenue_def metric_sum_def getStoreValue_def
          js_or_def dbl_eval)
  from fleet_percent_division_by_zero [of NaN ?a "''measure_cost''" "[]" Map.empty Map.empty "Num 0" None 0 "Num 0" "Num 0" Map.empty] a
  have ra: "fleet_profit_percent NaN ?a = NaN"
    "gatherDetails NaN (Some ?a) Map.empty ''measure_profit_percent'' = Some NaN"
    by (simp_all add: js_sub_def dbl_0)
  from fleet_percent_division_by_zero [of NaN ?b "''measure_cost''" "[]" Map.empty Map.empty "Num 0" None 0 "Num 0" "Num 0" Map.empty] b
  have rb: "fleet_profit_percent NaN ?b = PInf"
    "\<not> is_finite (fleet_profit_percent NaN ?b)"
    "gatherDetails NaN (Some ?b) Map.empty ''measure_profit_percent'' = Some PInf"
    by (simp_all add: js_sub_def is_finite_def dbl_eval)
  from fleet_percent_division_by_zero [of NaN ?c "''measure_cost''" "[]" Map.empty Map.empty "Num 0" None 0 "Num 0" "Num 0" Map.empty] c
  have rc: "fleet_profit_percent NaN ?c = Num 50"
    by (simp add: js_sub_def dbl_eval)
  from a b ra rb rc show ?thesis by simp
qed

section \<open>The timestamp of an API call\<close>

lemma apiCall_synced:
  "localTimeDiff a = Some diff \<Longrightarrow>
   apiCall L a now nonce m path opts =
     Inr \<lparr>uri = host a @ fst (split_path path), http_method = m, x_request_id = nonce,
          x_user_agent = ''homey-nicehash-remote/'' @ version L,
          x_time = toString (timestamp_of (opt_time opts) now diff),
          x_nonce = nonce, x_user_lang = api_locale a, x_organization_id = org a,
          x_auth = getAuthHeader L (key a) (secret a)
                     (toString (timestamp_of (opt_time opts) now diff)) nonce (Some (org a))
                     \<lparr>req_method = m, req_path = fst (split_path path),
                       req_query = merged_query L path (opt_query opts),
                       req_body = opt_body opts\<rparr>,
          qs = merged_query L path (opt_query opts), http_body = opt_body opts\<rparr>"
  by (simp add: apiCall_def Let_def)

lemma apiCall_not_synced:
  "localTimeDiff a = None \<Longrightarrow> apiCall L a now nonce m path opts = Inl NotSynced"
  by (simp add: apiCall_def)

lemma toString_examples: "toString 1000 = ''1000''" "toString 1005 = ''1005''"
  "toString 2005 = ''2005''"
  by code_simp+

text \<open>
  Claim C8 as stated fails when a time override is supplied. The client is synchronised
  with an offset of 5 ms and the call carries the override 1000: the header \<open>X-Time\<close> is
  \<open>1000\<close>, not \<open>1005\<close>; the offset is not added to the override.
\<close>

theorem apiCall_timestamp_counterexample:
  "localTimeDiff ex_api = Some 5
   \<and> opt_time (ex_opts (Some 1000)) = Some 1000
   \<and> x_time_of (apiCall ex_libs ex_api 2000 ''nonce'' ''GET'' ''/main/api/v2/mining/rigs2''
        (ex_opts (Some 1000))) = Some ''1000''
   \<and> toString (1000 + 5) = ''1005''"
proof -
  have d: "localTimeDiff ex_api = Some 5" by (simp add: ex_api_def)
  show ?thesis
    by (simp add: apiCall_synced [OF d] d x_time_of_def ex_opts_def timestamp_of_def
          toString_examples)
qed

text \<open>
  Claim C8, amended. For every authenticated call (the clock offset is stored), the
  timestamp placed in the header \<open>X-Time\<close> and passed to the signer is the time override
  itself when one is supplied and is not 0, and otherwise the current local time plus the
  stored clock offset; the offset is not added to an override.
\<close>

theorem apiCall_timestamp:
  assumes "localTimeDiff a = Some diff"
  shows "x_time_of (apiCall L a now nonce m path opts)
           = Some (toString (timestamp_of (opt_time opts) now diff))
    \<and> x_auth_of (apiCall L a now nonce m path opts)
        = Some (getAuthHeader L (key a) (secret a)
                  (toString (timestamp_of (opt_time opts) now diff)) nonce (Some (org a))
                  \<lparr>req_method = m, req_path = fst (split_path path),
                    req_query = merged_query L path (opt_query opts),
                    req_body = opt_body opts\<rparr>)
    \<and> timestamp_of None now diff = now + diff
    \<and> timestamp_of (Some 0) now diff = now + diff
    \<and> (t \<noteq> 0 \<longrightarrow> timestamp_of (Some t) now diff = t)"
  by (simp add: apiCall_synced [OF assms] x_time_of_def x_auth_of_def timestamp_of_def)

theorem apiCall_timestamp_witness:
  "localTimeDiff ex_api = Some 5
   \<and> x_time_of (apiCall ex_libs ex_api 2000 ''nonce'' ''GET'' ''/main/api/v2/mining/rigs2''
        (ex_opts None)) = Some ''2005''
   \<and> x_time_of (apiCall ex_libs ex_api 2000 ''nonce'' ''GET'' ''/main/api/v2/mining/rigs2''
        (ex_opts (Some 1000))) = Some ''1000''
   \<and> timestamp_of (Some 1000) 2000 5 = 1000"
proof -
  have d: "localTimeDiff ex_api = Some 5" by (simp add: ex_api_def)
  from apiCall_timestamp [OF d, of ex_libs 2000 "''nonce''" "''GET''"
        "''/main/api/v2/mining/rigs2''" "ex_opts None" 1000]
    apiCall_timestamp [OF d, of ex_libs 2000 "''nonce''" "''GET''"
        "''/main/api/v2/mining/rigs2''" "ex_opts (Some 1000)" 1000]
    d
  show ?thesis
    by (simp add: ex_opts_def timestamp_of_def toString_examples)
qed

end
